theory Spec2Isabelle
  imports Complex_Main "HOL-Library.Multiset"
begin

section \<open>Data model (types.ts)\<close>

text \<open>
  The interfaces of \<^verbatim>\<open>types.ts\<close> become records. Several interfaces share field names
  (\<^verbatim>\<open>id\<close>, \<^verbatim>\<open>userId\<close>, \<^verbatim>\<open>status\<close>, \<^verbatim>\<open>createdAt\<close>), and \<^verbatim>\<open>id\<close> is a HOL constant, so
  every field carries a one-letter prefix naming its interface: \<open>u_\<close> for User, \<open>a_\<close> for
  Approver, \<open>c_\<close> for PdfComment, \<open>r_\<close> for Request, \<open>n_\<close> for Notification. An optional
  field (\<^verbatim>\<open>name?: T\<close>) is an \<open>option\<close>, with \<open>None\<close> for \<^verbatim>\<open>undefined\<close> and \<^verbatim>\<open>null\<close>.

  A JavaScript string is a \<open>string\<close>: every \<open>char\<close> is one code unit below 256.
\<close>

datatype UserRole = ADMIN | APPROVER

record User =
  u_id :: string
  u_email :: string
  u_role :: UserRole
  u_fullName :: "string option"

datatype RequestType = DIESEL | PROCUREMENT | LEAVE | ITEM | STORE

datatype ApprovalStatus = PENDING | APPROVED | REJECTED | SENT_BACK | COMPLETED

text \<open>The string value of each member of the enum \<^verbatim>\<open>ApprovalStatus\<close>.\<close>

fun statusStr :: "ApprovalStatus \<Rightarrow> string" where
  "statusStr PENDING = ''Pending''"
| "statusStr APPROVED = ''Approved''"
| "statusStr REJECTED = ''Rejected''"
| "statusStr SENT_BACK = ''Sent Back for Correction''"
| "statusStr COMPLETED = ''Completed''"

text \<open>
  A JavaScript number, as far as this code looks at one: \<^verbatim>\<open>NaN\<close>, an infinity
  (\<open>JInf True\<close> is \<^verbatim>\<open>+Infinity\<close>) or a finite value. Both zeros are \<open>JNum 0\<close>.
\<close>

datatype jsnum = JNaN | JInf bool | JNum rat

text \<open>A value of type \<^verbatim>\<open>any\<close> stored under a key of \<^verbatim>\<open>Request.details\<close>.\<close>

datatype jsval = JUndefined | JNull | JBool bool | JNumber jsnum | JString string | JObject

record Approver =
  a_userId :: string
  a_userEmail :: "string option"
  a_status :: ApprovalStatus
  a_comments :: "string option"
  a_approvedAt :: "string option"
  a_signature :: "string option"
  a_hodComments :: "string option"
  a_internalAuditComments :: "string option"
  a_finalAmount :: "jsnum option"

record PdfComment =
  c_id :: "int option"
  c_requestId :: string
  c_userId :: string
  c_userEmail :: "string option"
  c_comment :: string
  c_createdAt :: string

text \<open>
  \<^verbatim>\<open>Request\<close>, without the two fields that exist only in front-end state (\<^verbatim>\<open>file\<close>,
  \<^verbatim>\<open>annotations\<close>). \<open>r_details\<close> maps a key to its value; a key that is absent reads as
  \<^verbatim>\<open>undefined\<close>. \<open>r_currentApproverIndex\<close> is an \<open>int\<close>: the code compares it with the
  queue's length and indexes with it, and a negative index reads \<^verbatim>\<open>undefined\<close>.
\<close>

record Request =
  r_id :: string
  r_requesterId :: string
  r_requesterName :: string
  r_type :: RequestType
  r_details :: "string \<rightharpoonup> jsval"
  r_status :: ApprovalStatus
  r_approvalQueue :: "Approver list"
  r_currentApproverIndex :: int
  r_createdAt :: string
  r_fileName :: "string option"
  r_fileURL :: "string option"
  r_pdfComments :: "PdfComment list option"
  r_requesterSignature :: "string option"
  r_vendorId :: "string option"

record Notification =
  n_id :: string
  n_message :: string
  n_requestId :: string
  n_isRead :: bool
  n_createdAt :: string

section \<open>JavaScript primitives the code relies on\<close>

text \<open>\<^verbatim>\<open>xs[i]\<close>: the element, or \<^verbatim>\<open>undefined\<close> outside \<open>0 .. length - 1\<close>.\<close>

definition at_index :: "'a list \<Rightarrow> int \<Rightarrow> 'a option" where
  "at_index xs i = (if 0 \<le> i \<and> i < int (length xs) then Some (xs ! nat i) else None)"

text \<open>\<^verbatim>\<open>s || null\<close> on an optional string: the empty string and \<^verbatim>\<open>undefined\<close> are falsy.\<close>

fun str_or_null :: "string option \<Rightarrow> string option" where
  "str_or_null None = None"
| "str_or_null (Some s) = (if s = [] then None else Some s)"

text \<open>Truthiness of a number: \<^verbatim>\<open>NaN\<close> and zero are falsy.\<close>

fun num_truthy :: "jsnum \<Rightarrow> bool" where
  "num_truthy JNaN = False"
| "num_truthy (JInf b) = True"
| "num_truthy (JNum q) = (q \<noteq> 0)"

text \<open>\<^verbatim>\<open>n || null\<close> on an optional number.\<close>

fun num_or_null :: "jsnum option \<Rightarrow> jsnum option" where
  "num_or_null None = None"
| "num_or_null (Some n) = (if num_truthy n then Some n else None)"

fun isNaN :: "jsnum \<Rightarrow> bool" where
  "isNaN JNaN = True"
| "isNaN (JInf b) = False"
| "isNaN (JNum q) = False"

text \<open>
  White space as \<^verbatim>\<open>String.prototype.trim\<close> and \<^verbatim>\<open>parseFloat\<close> strip it, among the
  code units below 256: TAB, LF, VT, FF, CR, SPACE and NBSP.
\<close>

definition isWhiteSpace :: "char \<Rightarrow> bool" where
  "isWhiteSpace c = (of_char c \<in> {9, 10, 11, 12, 13, 32, 160 :: nat})"

definition trim :: "string \<Rightarrow> string" where
  "trim s = rev (dropWhile isWhiteSpace (rev (dropWhile isWhiteSpace s)))"

text \<open>\<^verbatim>\<open>s.includes(t)\<close>: \<open>t\<close> occurs in \<open>s\<close> as a contiguous run.\<close>

fun includes_str :: "string \<Rightarrow> string \<Rightarrow> bool" where
  "includes_str [] t = (t = [])"
| "includes_str (x # xs) t = (take (length t) (x # xs) = t \<or> includes_str xs t)"

text \<open>\<^verbatim>\<open>s.split('@')[0]\<close>: the part of \<open>s\<close> before the first \<^verbatim>\<open>@\<close>.\<close>

definition split_at_0 :: "string \<Rightarrow> string" where
  "split_at_0 s = takeWhile (\<lambda>c. c \<noteq> CHR ''@'') s"

subsection \<open>parseFloat\<close>

text \<open>
  \<^verbatim>\<open>parseFloat\<close> strips leading white space and reads the longest prefix that is a
  decimal literal: an optional sign, then \<^verbatim>\<open>Infinity\<close> or digits with an optional
  fraction and an optional exponent. No such prefix gives \<^verbatim>\<open>NaN\<close>. The literal's
  value is rounded to a double; of that rounding the model keeps what the code can
  observe, which is whether the result is zero (magnitude at most \<open>2^-1075\<close>) or
  infinite (magnitude at least \<open>2^1024 - 2^970\<close>). Between the two the literal's
  exact value stands for the nearest double.
\<close>

definition isDigit :: "char \<Rightarrow> bool" where
  "isDigit c = (48 \<le> (of_char c :: nat) \<and> (of_char c :: nat) \<le> 57)"

fun digitsValue :: "nat \<Rightarrow> string \<Rightarrow> nat" where
  "digitsValue acc [] = acc"
| "digitsValue acc (c # cs) = digitsValue (10 * acc + (of_char c - 48)) cs"

definition roundToDouble :: "rat \<Rightarrow> jsnum" where
  "roundToDouble q =
     (if \<bar>q\<bar> \<le> 1 / 2 ^ 1075 then JNum 0
      else if 2 ^ 1024 - 2 ^ 970 \<le> \<bar>q\<bar> then JInf (0 < q)
      else JNum q)"

text \<open>The exponent part \<^verbatim>\<open>e[+-]digits\<close> at the head of a string, 0 when there is none.\<close>

definition exponentPart :: "string \<Rightarrow> int" where
  "exponentPart s =
     (case s of
        [] \<Rightarrow> 0
      | c # cs \<Rightarrow>
          if c = CHR ''e'' \<or> c = CHR ''E'' then
            (case cs of
               [] \<Rightarrow> 0
             | d # ds \<Rightarrow>
                 if d = CHR ''-'' then
                   (if takeWhile isDigit ds = [] then 0
                    else - int (digitsValue 0 (takeWhile isDigit ds)))
                 else if d = CHR ''+'' then int (digitsValue 0 (takeWhile isDigit ds))
                 else int (digitsValue 0 (takeWhile isDigit (d # ds))))
          else 0)"

definition scale10 :: "rat \<Rightarrow> int \<Rightarrow> rat" where
  "scale10 m e = (if 0 \<le> e then m * 10 ^ nat e else m / 10 ^ nat (- e))"

definition parseUnsigned :: "bool \<Rightarrow> string \<Rightarrow> jsnum" where
  "parseUnsigned positive s =
     (if take 8 s = ''Infinity'' then JInf positive
      else
        let ip = takeWhile isDigit s;
            r1 = dropWhile isDigit s;
            fp = (case r1 of [] \<Rightarrow> [] | c # cs \<Rightarrow> if c = CHR ''.'' then takeWhile isDigit cs else []);
            r2 = (case r1 of [] \<Rightarrow> [] | c # cs \<Rightarrow> if c = CHR ''.'' then dropWhile isDigit cs else r1)
        in if ip = [] \<and> fp = [] then JNaN
           else
             let m = of_nat (digitsValue 0 (ip @ fp));
                 v = scale10 m (exponentPart r2 - int (length fp))
             in roundToDouble (if positive then v else - v))"

definition parseFloat :: "string \<Rightarrow> jsnum" where
  "parseFloat s =
     (case dropWhile isWhiteSpace s of
        [] \<Rightarrow> JNaN
      | c # cs \<Rightarrow>
          if c = CHR ''-'' then parseUnsigned False cs
          else if c = CHR ''+'' then parseUnsigned True cs
          else parseUnsigned True (c # cs))"

section \<open>Request context: calls to the backend (RequestContext)\<close>

text \<open>
  The backend is reached through remote procedure calls. A call either comes back with
  a response, whose \<^verbatim>\<open>error\<close> is \<^verbatim>\<open>null\<close> or carries a message, or throws (the
  network failed), again with a message. The procedures themselves run in the
  database and are parameters of the client functions below: each takes its argument
  object and the backend's state and returns the outcome with the new state.
\<close>

datatype rpc_reply = RpcReply "string option" | RpcThrow string

text \<open>The \<^verbatim>\<open>{ success, error }\<close> object every operation of the context resolves to.\<close>

record op_result =
  success :: bool
  error :: "string option"

definition parseSupabaseError :: "string \<Rightarrow> string \<Rightarrow> string" where
  "parseSupabaseError message ctx =
     (if includes_str message ''security violation'' \<or> includes_str message ''permission denied''
      then ''Permission Denied: You do not have the required permissions to perform this action. Please contact an administrator. (Context: ''
             @ ctx @ '')''
      else ''A database error occurred. Please try again. (Details: '' @ message @ '')'')"

text \<open>\<open>offline\<close> stands for \<^verbatim>\<open>typeof navigator !== 'undefined' && !navigator.onLine\<close>.\<close>

definition parseNetworkError :: "bool \<Rightarrow> string \<Rightarrow> string \<Rightarrow> string" where
  "parseNetworkError offline message ctx =
     (if message = ''Failed to fetch'' \<and> offline
      then ''You appear to be offline. Please check your internet connection. (Context: '' @ ctx @ '')''
      else ''A network error occurred. Please check your internet connection or browser extensions. (Context: ''
             @ ctx @ '', Details: '' @ message @ '')'')"

definition getUserById :: "User list \<Rightarrow> string \<Rightarrow> User option" where
  "getUserById users i = find (\<lambda>u. u_id u = i) users"

subsection \<open>updateRequestStatus\<close>

text \<open>The argument object of the procedure \<^verbatim>\<open>handle_request_action\<close>.\<close>

record action_params =
  p_request_id :: string
  p_action :: ApprovalStatus
  p_comments :: "string option"
  p_signature :: string
  p_hod_comments :: "string option"
  p_internal_audit_comments :: "string option"
  p_final_amount :: "jsnum option"

record auditDetails =
  ad_internalAuditComments :: "string option"
  ad_finalAmount :: "jsnum option"

text \<open>
  \<^verbatim>\<open>auditDetails?.internalAuditComments\<close> and \<^verbatim>\<open>auditDetails?.finalAmount\<close>:
  \<^verbatim>\<open>undefined\<close> when there is no \<^verbatim>\<open>auditDetails\<close>.
\<close>

definition opt_internalAuditComments :: "auditDetails option \<Rightarrow> string option" where
  "opt_internalAuditComments ad = (case ad of None \<Rightarrow> None | Some d \<Rightarrow> ad_internalAuditComments d)"

definition opt_finalAmount :: "auditDetails option \<Rightarrow> jsnum option" where
  "opt_finalAmount ad = (case ad of None \<Rightarrow> None | Some d \<Rightarrow> ad_finalAmount d)"

text \<open>
  The function builds the argument object, calls the procedure once and maps the
  outcome to a result. Its second parameter \<open>approverId\<close> is not used in the body.
  (\<^verbatim>\<open>refreshData\<close>, which only schedules a reload of the lists, is left out.)
\<close>

definition updateRequestStatus ::
  "(action_params \<Rightarrow> 'db \<Rightarrow> rpc_reply \<times> 'db) \<Rightarrow> bool \<Rightarrow> string \<Rightarrow> string \<Rightarrow> ApprovalStatus \<Rightarrow>
   string \<Rightarrow> string \<Rightarrow> string option \<Rightarrow> auditDetails option \<Rightarrow> 'db \<Rightarrow> op_result \<times> 'db" where
  "updateRequestStatus handle_request_action offline requestId approverId action comments
     signature hodComments auditDetails db =
     (case handle_request_action
             \<lparr> p_request_id = requestId, p_action = action,
               p_comments = str_or_null (Some comments), p_signature = signature,
               p_hod_comments = str_or_null hodComments,
               p_internal_audit_comments = str_or_null (opt_internalAuditComments auditDetails),
               p_final_amount = num_or_null (opt_finalAmount auditDetails) \<rparr> db of
        (RpcReply (Some message), db') \<Rightarrow>
          (\<lparr> success = False, error = Some (parseSupabaseError message ''update request status'') \<rparr>, db')
      | (RpcReply None, db') \<Rightarrow> (\<lparr> success = True, error = None \<rparr>, db')
      | (RpcThrow message, db') \<Rightarrow>
          (\<lparr> success = False,
             error = Some (parseNetworkError offline message ''update request status'') \<rparr>, db'))"

text \<open>
  A backend that accepts every call of \<^verbatim>\<open>handle_request_action\<close> and keeps the
  argument objects it received, in order. Run against it from the empty list, a client
  function leaves behind exactly the calls it made.
\<close>

definition recordingBackend :: "action_params \<Rightarrow> action_params list \<Rightarrow> rpc_reply \<times> action_params list" where
  "recordingBackend params calls = (RpcReply None, calls @ [params])"

subsection \<open>updateRequest\<close>

text \<open>An entry of the queue as it is sent to the database.\<close>

record db_approver =
  q_user_id :: string
  q_user_email :: "string option"
  q_status :: ApprovalStatus

text \<open>
  The argument object of the procedure \<^verbatim>\<open>resubmit_request_as_admin\<close>; its keys are
  \<^verbatim>\<open>p_request_id\<close>, \<^verbatim>\<open>p_requester_name\<close> and so on, written \<open>rp_\<close> here to keep them apart
  from the keys of \<open>action_params\<close>.
\<close>

record resubmit_params =
  rp_request_id :: string
  rp_requester_name :: string
  rp_details :: "string \<rightharpoonup> jsval"
  rp_approval_queue :: "db_approver list"
  rp_vendor_id :: "string option"
  rp_file_url :: "string option"
  rp_file_name :: "string option"
  rp_requester_signature :: "string option"

text \<open>
  Every entry is sent with status \<^verbatim>\<open>Pending\<close>, whatever its status was:
  \<^verbatim>\<open>user?.email || approver.userEmail\<close> picks the directory's address when the user
  is known and the address is not empty.
\<close>

definition approvalQueueForDb :: "User list \<Rightarrow> Approver list \<Rightarrow> db_approver list" where
  "approvalQueueForDb users queue =
     map (\<lambda>approver.
            \<lparr> q_user_id = a_userId approver,
              q_user_email =
                (case str_or_null (map_option u_email (getUserById users (a_userId approver))) of
                   Some e \<Rightarrow> Some e
                 | None \<Rightarrow> a_userEmail approver),
              q_status = PENDING \<rparr>) queue"

text \<open>Decimal digits of a number, for \<^verbatim>\<open>Date.now()\<close> inside a template string.\<close>

fun decimal :: "nat \<Rightarrow> string" where
  "decimal n = (if n < 10 then [char_of (48 + n)] else decimal (n div 10) @ [char_of (48 + n mod 10)])"

declare decimal.simps [simp del]

text \<open>
  \<open>storage_upload\<close> and \<open>getPublicUrl\<close> are the attachment store; \<open>now\<close> is
  \<^verbatim>\<open>Date.now()\<close>; \<open>file\<close> is the name of the file to attach, if any.
\<close>

definition updateRequest ::
  "(string \<Rightarrow> string \<Rightarrow> 'db \<Rightarrow> rpc_reply \<times> 'db) \<Rightarrow> (string \<Rightarrow> string) \<Rightarrow>
   (resubmit_params \<Rightarrow> 'db \<Rightarrow> rpc_reply \<times> 'db) \<Rightarrow> bool \<Rightarrow> nat \<Rightarrow> User option \<Rightarrow> User list \<Rightarrow>
   Request \<Rightarrow> string option \<Rightarrow> 'db \<Rightarrow> op_result \<times> 'db" where
  "updateRequest storage_upload getPublicUrl resubmit_request_as_admin offline now currentUser
     users updatedRequestData file db =
     (case currentUser of
        None \<Rightarrow> (\<lparr> success = False, error = Some ''User not authenticated'' \<rparr>, db)
      | Some cu \<Rightarrow>
          let call = (\<lambda>fileURL fileName db1.
                (case resubmit_request_as_admin
                        \<lparr> rp_request_id = r_id updatedRequestData,
                          rp_requester_name = r_requesterName updatedRequestData,
                          rp_details = r_details updatedRequestData,
                          rp_approval_queue =
                            approvalQueueForDb users (r_approvalQueue updatedRequestData),
                          rp_vendor_id = str_or_null (r_vendorId updatedRequestData),
                          rp_file_url = str_or_null (Some fileURL),
                          rp_file_name = str_or_null (Some fileName),
                          rp_requester_signature = r_requesterSignature updatedRequestData \<rparr> db1 of
                   (RpcReply (Some message), db2) \<Rightarrow>
                     (\<lparr> success = False, error = Some (parseSupabaseError message ''update request'') \<rparr>, db2)
                 | (RpcReply None, db2) \<Rightarrow> (\<lparr> success = True, error = None \<rparr>, db2)
                 | (RpcThrow message, db2) \<Rightarrow>
                     (\<lparr> success = False,
                        error = Some (parseNetworkError offline message ''update request'') \<rparr>, db2)));
              fileURL0 = (case r_fileURL updatedRequestData of None \<Rightarrow> [] | Some s \<Rightarrow> s);
              fileName0 = (case r_fileName updatedRequestData of None \<Rightarrow> [] | Some s \<Rightarrow> s)
          in (case file of
                None \<Rightarrow> call fileURL0 fileName0 db
              | Some name \<Rightarrow>
                  (let filePath = u_id cu @ ''/'' @ decimal now @ ''_'' @ name
                   in (case storage_upload filePath name db of
                         (RpcReply (Some message), db1) \<Rightarrow>
                           (\<lparr> success = False,
                              error = Some (parseSupabaseError message ''file upload on update'') \<rparr>, db1)
                       | (RpcReply None, db1) \<Rightarrow> call (getPublicUrl filePath) name db1
                       | (RpcThrow message, db1) \<Rightarrow>
                           (\<lparr> success = False,
                              error = Some (parseNetworkError offline message ''update request'') \<rparr>,
                            db1)))))"

section \<open>The request details modal (RequestDetailsModal)\<close>

definition AUDITOR_EMAIL :: string where
  "AUDITOR_EMAIL = ''auditorzankli@gmail.com''"

text \<open>\<^verbatim>\<open>AUDITOR_ID\<close>: the id of the first user with the auditor's address, or \<^verbatim>\<open>null\<close>.\<close>

definition AUDITOR_ID :: "User list \<Rightarrow> string option" where
  "AUDITOR_ID users = map_option u_id (find (\<lambda>u. u_email u = AUDITOR_EMAIL) users)"

definition isCurrentUserApprover :: "User option \<Rightarrow> Request \<Rightarrow> bool" where
  "isCurrentUserApprover currentUser request =
     (case currentUser of
        None \<Rightarrow> False
      | Some cu \<Rightarrow>
          if r_status request \<noteq> PENDING then False
          else if r_type request = ITEM then False
          else if int (length (r_approvalQueue request)) \<le> r_currentApproverIndex request then False
          else (case at_index (r_approvalQueue request) (r_currentApproverIndex request) of
                  None \<Rightarrow> False
                | Some currentApprover \<Rightarrow> a_userId currentApprover = u_id cu))"

text \<open>
  \<^verbatim>\<open>currentUser?.id === request.details?.selectedHODId\<close>: strict equality of an
  optional string with a value of any type.
\<close>

fun strict_eq_any :: "string option \<Rightarrow> jsval option \<Rightarrow> bool" where
  "strict_eq_any None None = True"
| "strict_eq_any None (Some JUndefined) = True"
| "strict_eq_any (Some s) (Some (JString t)) = (s = t)"
| "strict_eq_any _ _ = False"

definition isHOD :: "User option \<Rightarrow> Request \<Rightarrow> bool" where
  "isHOD currentUser request =
     (r_type request = LEAVE \<and> isCurrentUserApprover currentUser request \<and>
      strict_eq_any (map_option u_id currentUser) (r_details request ''selectedHODId''))"

text \<open>
  \<^verbatim>\<open>currentUser?.id === AUDITOR_ID\<close>: the left side is a string or \<^verbatim>\<open>undefined\<close>, the
  right side a string or \<^verbatim>\<open>null\<close>, so they are equal only as equal strings.
\<close>

definition isAuditor :: "User option \<Rightarrow> User list \<Rightarrow> Request \<Rightarrow> bool" where
  "isAuditor currentUser users request =
     (isCurrentUserApprover currentUser request \<and>
      (case (currentUser, AUDITOR_ID users) of
         (Some cu, Some a) \<Rightarrow> u_id cu = a
       | _ \<Rightarrow> False))"

text \<open>The fields of the action form, as typed by the user.\<close>

record action_form =
  f_comments :: string
  f_hodComments :: string
  f_internalAuditComments :: string
  f_finalAmount :: string

text \<open>
  The \<^verbatim>\<open>auditDetails\<close> object of \<^verbatim>\<open>handleAction\<close>: \<^verbatim>\<open>undefined\<close> unless the user is the
  auditor; its amount is \<^verbatim>\<open>undefined\<close> when the field is empty or does not parse.
\<close>

definition auditDetailsOf :: "bool \<Rightarrow> string \<Rightarrow> string \<Rightarrow> auditDetails option" where
  "auditDetailsOf isAud internalAuditComments finalAmount =
     (let parsedFinalAmount = parseFloat finalAmount
      in if isAud
         then Some \<lparr> ad_internalAuditComments = Some internalAuditComments,
                     ad_finalAmount =
                       (if finalAmount = [] \<or> isNaN parsedFinalAmount then None
                        else Some parsedFinalAmount) \<rparr>
         else None)"

text \<open>
  What \<^verbatim>\<open>handleAction\<close> leaves behind: nothing at all when nobody is logged in, a
  message in \<^verbatim>\<open>actionError\<close>, or the closed modal after a successful call.
\<close>

datatype action_outcome = NoUser | ActionError "string option" | Closed

text \<open>
  \<open>signature\<close> is what \<^verbatim>\<open>signaturePadRef.current?.getSignature()\<close> returned: \<open>None\<close> for
  an empty pad (\<^verbatim>\<open>null\<close>) or a pad that is not shown (\<^verbatim>\<open>undefined\<close>).
\<close>

definition handleAction ::
  "(action_params \<Rightarrow> 'db \<Rightarrow> rpc_reply \<times> 'db) \<Rightarrow> bool \<Rightarrow> User option \<Rightarrow> User list \<Rightarrow> Request \<Rightarrow>
   action_form \<Rightarrow> string option \<Rightarrow> ApprovalStatus \<Rightarrow> 'db \<Rightarrow> action_outcome \<times> 'db" where
  "handleAction handle_request_action offline currentUser users request form signature status db =
     (case currentUser of
        None \<Rightarrow> (NoUser, db)
      | Some cu \<Rightarrow>
          (case str_or_null signature of
             None \<Rightarrow>
               (ActionError (Some ''Please provide your signature to complete this action.''), db)
           | Some sig \<Rightarrow>
               if status = SENT_BACK \<and> trim (f_comments form) = []
               then (ActionError
                       (Some ''Comments are required when sending a request back for correction.''), db)
               else
                 let auditDetails =
                       auditDetailsOf (isAuditor currentUser users request)
                         (f_internalAuditComments form) (f_finalAmount form);
                     (result, db') =
                       updateRequestStatus handle_request_action offline (r_id request) (u_id cu)
                         status (f_comments form) sig
                         (if isHOD currentUser request then Some (f_hodComments form) else None)
                         auditDetails db
                 in if success result then (Closed, db') else (ActionError (error result), db')))"

section \<open>Notifications (Dashboard)\<close>

text \<open>
  The dashboard rebuilds the list of notifications from the requests each time the
  requests or the user change. \<open>readNotifIds\<close> is the list of ids kept in local storage
  under the user's key.
\<close>

definition baseNotifId :: "Request \<Rightarrow> string" where
  "baseNotifId req = ''notif-'' @ r_id req @ ''-'' @ statusStr (r_status req)"

text \<open>The notification for an approver whose turn it is.\<close>

definition approverNotifs :: "User \<Rightarrow> string list \<Rightarrow> Request \<Rightarrow> Notification list" where
  "approverNotifs cu readNotifIds req =
     (if u_role cu = APPROVER \<and> r_status req = PENDING \<and>
         r_currentApproverIndex req < int (length (r_approvalQueue req))
      then
        let isTheirTurn =
              (case at_index (r_approvalQueue req) (r_currentApproverIndex req) of
                 None \<Rightarrow> False
               | Some a \<Rightarrow> a_userId a = u_id cu);
            notifId = baseNotifId req @ ''-'' @ u_id cu
        in if isTheirTurn
           then [\<lparr> n_id = notifId,
                   n_message = ''New request awaiting your approval: '' @ r_id req,
                   n_requestId = r_id req,
                   n_isRead = (notifId \<in> set readNotifIds),
                   n_createdAt = r_createdAt req \<rparr>]
           else []
      else [])"

text \<open>The notification for an administrator about a request that has left the queue.\<close>

definition statusNotifs :: "string list \<Rightarrow> Request \<Rightarrow> Notification list" where
  "statusNotifs readNotifIds req =
     (if r_status req \<in> set [SENT_BACK, REJECTED, COMPLETED]
      then [\<lparr> n_id = baseNotifId req,
              n_message = ''Request '' @ r_id req @ '' has been '' @ statusStr (r_status req) @ ''.'',
              n_requestId = r_id req,
              n_isRead = (baseNotifId req \<in> set readNotifIds),
              n_createdAt = r_createdAt req \<rparr>]
      else [])"

definition commentNotifId :: "string \<Rightarrow> string \<Rightarrow> string" where
  "commentNotifId requestId createdAt = ''notif-comment-'' @ requestId @ ''-'' @ createdAt"

text \<open>
  \<^verbatim>\<open>comment.userEmail?.split('@')[0] || getUserById(comment.userId)?.email?.split('@')[0] || 'a user'\<close>
\<close>

definition commenterName :: "User list \<Rightarrow> PdfComment \<Rightarrow> string" where
  "commenterName users comment =
     (case str_or_null (map_option split_at_0 (c_userEmail comment)) of
        Some name \<Rightarrow> name
      | None \<Rightarrow>
          (case str_or_null (map_option (split_at_0 \<circ> u_email) (getUserById users (c_userId comment))) of
             Some name \<Rightarrow> name
           | None \<Rightarrow> ''a user''))"

definition commentNotif :: "User list \<Rightarrow> string list \<Rightarrow> Request \<Rightarrow> PdfComment \<Rightarrow> Notification" where
  "commentNotif users readNotifIds req comment =
     \<lparr> n_id = commentNotifId (r_id req) (c_createdAt comment),
       n_message = ''New comment on '' @ r_id req @ '' from '' @ commenterName users comment @ '': ''
                   @ [CHR 0x22] @ take 40 (c_comment comment) @ ''...'' @ [CHR 0x22],
       n_requestId = r_id req,
       n_isRead = (commentNotifId (r_id req) (c_createdAt comment) \<in> set readNotifIds),
       n_createdAt = c_createdAt comment \<rparr>"

text \<open>One notification for each comment of the request that the viewer did not write.\<close>

definition commentNotifs :: "User \<Rightarrow> User list \<Rightarrow> string list \<Rightarrow> Request \<Rightarrow> Notification list" where
  "commentNotifs cu users readNotifIds req =
     (case r_pdfComments req of
        None \<Rightarrow> []
      | Some comments \<Rightarrow>
          map (commentNotif users readNotifIds req)
            (filter (\<lambda>comment. c_userId comment \<noteq> u_id cu) comments))"

text \<open>What the body of \<^verbatim>\<open>requests.forEach\<close> pushes for one request.\<close>

definition requestNotifs :: "User \<Rightarrow> User list \<Rightarrow> string list \<Rightarrow> Request \<Rightarrow> Notification list" where
  "requestNotifs cu users readNotifIds req =
     approverNotifs cu readNotifIds req @
     (if u_role cu = ADMIN
      then statusNotifs readNotifIds req @ commentNotifs cu users readNotifIds req
      else [])"

definition generatedNotifs :: "User \<Rightarrow> User list \<Rightarrow> string list \<Rightarrow> Request list \<Rightarrow> Notification list" where
  "generatedNotifs cu users readNotifIds requests =
     concat (map (requestNotifs cu users readNotifIds) requests)"

text \<open>
  \<^verbatim>\<open>Array.prototype.sort\<close> with a comparison function is a stable sort: \<open>a\<close> comes
  before \<open>b\<close> when the comparison of \<open>a\<close> with \<open>b\<close> is negative, and elements that
  compare as equal keep their order. Insertion from the right end is such a sort.
\<close>

fun insertBy :: "('a \<Rightarrow> 'a \<Rightarrow> int) \<Rightarrow> 'a \<Rightarrow> 'a list \<Rightarrow> 'a list" where
  "insertBy cmp x [] = [x]"
| "insertBy cmp x (y # ys) = (if cmp x y \<le> 0 then x # y # ys else y # insertBy cmp x ys)"

definition sortBy :: "('a \<Rightarrow> 'a \<Rightarrow> int) \<Rightarrow> 'a list \<Rightarrow> 'a list" where
  "sortBy cmp xs = foldr (insertBy cmp) xs []"

text \<open>
  The comparison function of the dashboard,
  \<^verbatim>\<open>new Date(b.createdAt).getTime() - new Date(a.createdAt).getTime()\<close>. \<open>getTime\<close> is
  the host's reading of a date string in milliseconds, \<open>None\<close> where the string is not
  a date (\<^verbatim>\<open>NaN\<close>); a difference that is \<^verbatim>\<open>NaN\<close> counts as 0 in a sort.
\<close>

definition compareNotifs :: "(string \<Rightarrow> int option) \<Rightarrow> Notification \<Rightarrow> Notification \<Rightarrow> int" where
  "compareNotifs getTime a b =
     (case (getTime (n_createdAt b), getTime (n_createdAt a)) of
        (Some tb, Some ta) \<Rightarrow> tb - ta
      | _ \<Rightarrow> 0)"

text \<open>
  The effect as a function from the old list of notifications to the new one: without
  a user it returns at once and the list stays as it is.
\<close>

definition notificationsEffect ::
  "(string \<Rightarrow> int option) \<Rightarrow> User option \<Rightarrow> User list \<Rightarrow> string list \<Rightarrow> Request list \<Rightarrow>
   Notification list \<Rightarrow> Notification list" where
  "notificationsEffect getTime currentUser users readNotifIds requests notifications =
     (case currentUser of
        None \<Rightarrow> notifications
      | Some cu \<Rightarrow> sortBy (compareNotifs getTime) (generatedNotifs cu users readNotifIds requests))"

section \<open>The backend procedures\<close>

text \<open>
  The client calls the procedures \<^verbatim>\<open>handle_request_action\<close>,
  \<^verbatim>\<open>resubmit_request_as_admin\<close> and \<^verbatim>\<open>update_item_request_status_as_admin\<close> by name;
  their bodies run in the database and are not part of the sources. The definitions of
  this section follow the specification of the approval engine, the workflow service
  and the request store instead.
\<close>

datatype error_kind = NotAuthorized | InvalidTransition | StaleState | NotFound

datatype Action = Approve | Reject | SendBack

record action_payload =
  pl_comments :: string
  pl_signature :: string

text \<open>
  Modelled from the spec: the status an action gives to the acting entry (the column
  "entry.status set to" of the transition table); the engine itself is missing from
  the sources.
\<close>

fun entryStatus :: "Action \<Rightarrow> ApprovalStatus" where
  "entryStatus Approve = APPROVED"
| "entryStatus Reject = REJECTED"
| "entryStatus SendBack = SENT_BACK"

text \<open>
  Modelled from the spec: the approval engine \<^verbatim>\<open>transition(request, actorId, action, payload)\<close>,
  missing from the sources. The preconditions are checked in the order the
  specification numbers them, before anything is changed: the request is pending (1),
  the index points into the queue (2), the actor is the entry at the index (3), a
  signature is supplied (4), a send-back carries comments (5). The specification names
  no error for (2); \<open>InvalidTransition\<close> is used. Precondition (6), on the fields of the
  head of department and of the auditor, is added by \<open>transitionWithRoleFields\<close>
  below, which builds on this function. Then the transition
  table: the acting entry takes the action's status, the comments, the signature and
  the time \<open>now\<close>; approval moves the index on by one and, past the last entry, sets the
  request to approved; rejection and send-back set the request's status and keep the
  index. All other entries are left as they are.
\<close>

definition transition ::
  "Request \<Rightarrow> string \<Rightarrow> Action \<Rightarrow> action_payload \<Rightarrow> string \<Rightarrow> error_kind + Request" where
  "transition request actorId action payload now =
     (if r_status request \<noteq> PENDING then Inl InvalidTransition
      else
        case at_index (r_approvalQueue request) (r_currentApproverIndex request) of
          None \<Rightarrow> Inl InvalidTransition
        | Some entry \<Rightarrow>
            if actorId \<noteq> a_userId entry then Inl NotAuthorized
            else if pl_signature payload = [] then Inl InvalidTransition
            else if action = SendBack \<and> pl_comments payload = [] then Inl InvalidTransition
            else
              let queue' = (r_approvalQueue request)
                    [nat (r_currentApproverIndex request) :=
                       entry \<lparr> a_status := entryStatus action,
                               a_comments := Some (pl_comments payload),
                               a_approvedAt := Some now,
                               a_signature := Some (pl_signature payload) \<rparr>]
              in Inr (case action of
                        Approve \<Rightarrow>
                          request \<lparr> r_status :=
                                      (if r_currentApproverIndex request + 1 =
                                          int (length (r_approvalQueue request))
                                       then APPROVED else PENDING),
                                    r_approvalQueue := queue',
                                    r_currentApproverIndex := r_currentApproverIndex request + 1 \<rparr>
                      | Reject \<Rightarrow> request \<lparr> r_status := REJECTED, r_approvalQueue := queue' \<rparr>
                      | SendBack \<Rightarrow> request \<lparr> r_status := SENT_BACK, r_approvalQueue := queue' \<rparr>))"

subsection \<open>Request store\<close>

type_synonym store = "string \<rightharpoonup> Request"

text \<open>
  Modelled from the spec: the request store's
  \<^verbatim>\<open>conditionalUpdate(requestId, expectedIndex, expectedStatus, mutator)\<close>, missing from
  the sources. The write happens only if the stored request still has the expected
  index and status; otherwise the store is left alone and the caller gets \<open>StaleState\<close>.
\<close>

definition conditionalUpdate ::
  "store \<Rightarrow> string \<Rightarrow> int \<Rightarrow> ApprovalStatus \<Rightarrow> (Request \<Rightarrow> Request) \<Rightarrow> error_kind + store" where
  "conditionalUpdate st requestId expectedIndex expectedStatus mutator =
     (case st requestId of
        None \<Rightarrow> Inl NotFound
      | Some current \<Rightarrow>
          if r_currentApproverIndex current = expectedIndex \<and> r_status current = expectedStatus
          then Inr (st(requestId \<mapsto> mutator current))
          else Inl StaleState)"

subsection \<open>Workflow service\<close>

text \<open>A call of \<^verbatim>\<open>apply(requestId, actorId, action)\<close> with its payload and its time.\<close>

record call =
  cl_requestId :: string
  cl_actorId :: string
  cl_action :: Action
  cl_payload :: action_payload
  cl_now :: string

text \<open>
  A call is served in two steps. It first loads the request; later it lets the engine
  compute the new request from what it loaded and persists it with a conditional write
  that expects the index and the status it loaded. \<open>Finished None\<close> is success.
\<close>

datatype phase = Idle | Loaded Request | Finished "error_kind option"

text \<open>Modelled from the spec: the first step of the workflow service's \<^verbatim>\<open>apply\<close>, missing from the sources.\<close>

definition loadStep :: "store \<Rightarrow> call \<Rightarrow> phase" where
  "loadStep st c = (case st (cl_requestId c) of None \<Rightarrow> Finished (Some NotFound) | Some r \<Rightarrow> Loaded r)"

text \<open>Modelled from the spec: the second step of the workflow service's \<^verbatim>\<open>apply\<close>, missing from the sources.\<close>

definition writeStep :: "store \<Rightarrow> call \<Rightarrow> Request \<Rightarrow> phase \<times> store" where
  "writeStep st c snapshot =
     (case transition snapshot (cl_actorId c) (cl_action c) (cl_payload c) (cl_now c) of
        Inl e \<Rightarrow> (Finished (Some e), st)
      | Inr request' \<Rightarrow>
          (case conditionalUpdate st (cl_requestId c) (r_currentApproverIndex snapshot)
                  (r_status snapshot) (\<lambda>_. request') of
             Inl e \<Rightarrow> (Finished (Some e), st)
           | Inr st' \<Rightarrow> (Finished None, st')))"

text \<open>One step of a call in phase \<open>ph\<close>; a finished call stays finished.\<close>

definition callStep :: "call \<Rightarrow> phase \<times> store \<Rightarrow> phase \<times> store" where
  "callStep c s =
     (case fst s of
        Idle \<Rightarrow> (loadStep (snd s) c, snd s)
      | Loaded snapshot \<Rightarrow> writeStep (snd s) c snapshot
      | Finished res \<Rightarrow> s)"

text \<open>
  Modelled from the spec: \<^verbatim>\<open>apply\<close> run on its own, both steps with nothing in
  between. It returns the error, if any, and the store.
\<close>

definition apply_action :: "store \<Rightarrow> call \<Rightarrow> error_kind option \<times> store" where
  "apply_action st c =
     (case callStep c (callStep c (Idle, st)) of
        (Finished res, st') \<Rightarrow> (res, st')
      | (_, st') \<Rightarrow> (Some NotFound, st'))"

text \<open>
  Two calls in flight over one store. A schedule says whose turn each step is:
  \<open>False\<close> lets the first call take a step, \<open>True\<close> the second.
\<close>

record system =
  sys_store :: store
  sys_first :: phase
  sys_second :: phase

fun runSchedule :: "call \<Rightarrow> call \<Rightarrow> bool list \<Rightarrow> system \<Rightarrow> system" where
  "runSchedule c1 c2 [] s = s"
| "runSchedule c1 c2 (turn # turns) s =
     runSchedule c1 c2 turns
       (if turn
        then (case callStep c2 (sys_second s, sys_store s) of
                (ph, st) \<Rightarrow> s \<lparr> sys_store := st, sys_second := ph \<rparr>)
        else (case callStep c1 (sys_first s, sys_store s) of
                (ph, st) \<Rightarrow> s \<lparr> sys_store := st, sys_first := ph \<rparr>))"

text \<open>
  The schedules in which two calls act on the same position of the queue: both have
  loaded the request before either writes.
\<close>

definition racingSchedules :: "bool list list" where
  "racingSchedules =
     [[False, True, False, True], [False, True, True, False],
      [True, False, False, True], [True, False, True, False]]"

subsection \<open>Resubmission and item requests\<close>

text \<open>
  Modelled from the spec: an entry of a resubmitted queue; the procedure
  \<^verbatim>\<open>resubmit_request_as_admin\<close> is missing from the sources. Every entry starts
  pending and without comments, signature or time.
\<close>

definition freshEntry :: "db_approver \<Rightarrow> Approver" where
  "freshEntry e =
     \<lparr> a_userId = q_user_id e, a_userEmail = q_user_email e, a_status = PENDING,
       a_comments = None, a_approvedAt = None, a_signature = None, a_hodComments = None,
       a_internalAuditComments = None, a_finalAmount = None \<rparr>"

text \<open>
  Modelled from the spec: the workflow service's \<^verbatim>\<open>resubmit(requestId, updatedDraft, actorId)\<close>,
  the procedure \<^verbatim>\<open>resubmit_request_as_admin\<close> that is missing from the sources. It is
  permitted only to an administrator and only on a request that was sent back; it
  replaces the details, the attachment, the vendor and the queue, and resets the
  status to pending, the index to 0 and every entry to pending.
\<close>

definition resubmit :: "store \<Rightarrow> User \<Rightarrow> resubmit_params \<Rightarrow> error_kind + store" where
  "resubmit st actor params =
     (case st (rp_request_id params) of
        None \<Rightarrow> Inl NotFound
      | Some request \<Rightarrow>
          if u_role actor \<noteq> ADMIN then Inl NotAuthorized
          else if r_status request \<noteq> SENT_BACK then Inl InvalidTransition
          else
            conditionalUpdate st (rp_request_id params) (r_currentApproverIndex request)
              (r_status request)
              (\<lambda>current.
                 current \<lparr> r_requesterName := rp_requester_name params,
                           r_details := rp_details params,
                           r_status := PENDING,
                           r_approvalQueue := map freshEntry (rp_approval_queue params),
                           r_currentApproverIndex := 0,
                           r_fileName := rp_file_name params,
                           r_fileURL := rp_file_url params,
                           r_requesterSignature := rp_requester_signature params,
                           r_vendorId := rp_vendor_id params \<rparr>))"

text \<open>
  Modelled from the spec: the workflow service's \<^verbatim>\<open>resolveAdHocItem(requestId, newStatus, actorId)\<close>,
  the procedure \<^verbatim>\<open>update_item_request_status_as_admin\<close> that is missing from the
  sources. Only an administrator may call it; it sets the status and does not touch
  the queue.
\<close>

definition resolveAdHocItem :: "store \<Rightarrow> User \<Rightarrow> string \<Rightarrow> ApprovalStatus \<Rightarrow> error_kind + store" where
  "resolveAdHocItem st actor requestId newStatus =
     (case st requestId of
        None \<Rightarrow> Inl NotFound
      | Some request \<Rightarrow>
          if u_role actor \<noteq> ADMIN then Inl NotAuthorized
          else conditionalUpdate st requestId (r_currentApproverIndex request) (r_status request)
                 (\<lambda>current. current \<lparr> r_status := newStatus \<rparr>))"

text \<open>
  The gate of the modal's "Edit Request" button, which starts a resubmission:
  \<^verbatim>\<open>isAdmin && request.status === ApprovalStatus.SENT_BACK && onEdit\<close>.
\<close>

definition showEditRequest :: "User option \<Rightarrow> Request \<Rightarrow> bool \<Rightarrow> bool" where
  "showEditRequest currentUser request onEdit =
     ((case currentUser of None \<Rightarrow> False | Some cu \<Rightarrow> u_role cu = ADMIN) \<and>
      r_status request = SENT_BACK \<and> onEdit)"

subsection \<open>Fields reserved to a role\<close>








section \<open>Example data\<close>

text \<open>
  The data of the concrete instances below: approvers \<open>A\<close>, \<open>B\<close> and \<open>C\<close>, an
  administrator \<open>Z\<close>, a procurement request with the queue \<open>[A, B, C]\<close>, and a leave
  request whose head of department is \<open>B\<close>, the first of its queue \<open>[B, A]\<close>.
\<close>

definition approverUser :: "string \<Rightarrow> string \<Rightarrow> User" where
  "approverUser uid mail = \<lparr> u_id = uid, u_email = mail, u_role = APPROVER, u_fullName = None \<rparr>"

definition adminUser :: User where
  "adminUser = \<lparr> u_id = ''Z'', u_email = ''admin@zankli.com'', u_role = ADMIN, u_fullName = None \<rparr>"

definition pendingEntry :: "string \<Rightarrow> Approver" where
  "pendingEntry uid =
     \<lparr> a_userId = uid, a_userEmail = None, a_status = PENDING, a_comments = None,
       a_approvedAt = None, a_signature = None, a_hodComments = None,
       a_internalAuditComments = None, a_finalAmount = None \<rparr>"

definition procurementRequest :: Request where
  "procurementRequest =
     \<lparr> r_id = ''r1'', r_requesterId = ''Z'', r_requesterName = ''Stores'', r_type = PROCUREMENT,
       r_details = Map.empty, r_status = PENDING,
       r_approvalQueue = [pendingEntry ''A'', pendingEntry ''B'', pendingEntry ''C''],
       r_currentApproverIndex = 0, r_createdAt = ''2024-01-01T00:00:00.000Z'',
       r_fileName = None, r_fileURL = None, r_pdfComments = None,
       r_requesterSignature = Some ''data:image/png;base64,UkVR'', r_vendorId = None \<rparr>"

definition leaveRequest :: Request where
  "leaveRequest =
     \<lparr> r_id = ''r2'', r_requesterId = ''Z'', r_requesterName = ''Nurse'', r_type = LEAVE,
       r_details = [''selectedHODId'' \<mapsto> JString ''B''], r_status = PENDING,
       r_approvalQueue = [pendingEntry ''B'', pendingEntry ''A''],
       r_currentApproverIndex = 0, r_createdAt = ''2024-01-02T00:00:00.000Z'',
       r_fileName = None, r_fileURL = None, r_pdfComments = None,
       r_requesterSignature = Some ''data:image/png;base64,UkVR'', r_vendorId = None \<rparr>"

definition inkSignature :: string where
  "inkSignature = ''data:image/png;base64,U0lH''"

text \<open>
  For the notifications: the host's reading of the three date strings in use, a request
  that was sent back and carries a comment of the viewer \<open>Z\<close> and a later one of \<open>A\<close>,
  a rejected request, and a request with two comments written at the same time.
\<close>

definition hostClock :: "string \<Rightarrow> int option" where
  "hostClock s =
     (if s = ''2024-01-01T00:00:00.000Z'' then Some 1704067200000
      else if s = ''2024-01-02T00:00:00.000Z'' then Some 1704153600000
      else if s = ''2024-01-03T00:00:00.000Z'' then Some 1704240000000
      else None)"

definition exampleComment :: "int \<Rightarrow> string \<Rightarrow> string \<Rightarrow> string \<Rightarrow> PdfComment" where
  "exampleComment i uid body time =
     \<lparr> c_id = Some i, c_requestId = ''r1'', c_userId = uid, c_userEmail = None,
       c_comment = body, c_createdAt = time \<rparr>"

definition sentBackRequest :: Request where
  "sentBackRequest =
     procurementRequest
       \<lparr> r_status := SENT_BACK,
         r_pdfComments := Some [exampleComment 1 ''Z'' ''see page 2'' ''2024-01-02T00:00:00.000Z'',
                                exampleComment 2 ''A'' ''invoice missing'' ''2024-01-03T00:00:00.000Z''] \<rparr>"

definition rejectedRequest :: Request where
  "rejectedRequest =
     procurementRequest
       \<lparr> r_id := ''r3'', r_status := REJECTED, r_createdAt := ''2024-01-02T00:00:00.000Z'' \<rparr>"

definition twiceCommented :: Request where
  "twiceCommented =
     procurementRequest
       \<lparr> r_pdfComments := Some [exampleComment 1 ''A'' ''approve'' ''2024-01-03T00:00:00.000Z'',
                                exampleComment 2 ''B'' ''do not approve'' ''2024-01-03T00:00:00.000Z''] \<rparr>"

text \<open>
  For the workflow: a call on the procurement request signed by the actor, the store
  that holds just that request, the resubmission an administrator sends with the queue
  \<open>[A, C]\<close>, and the four facts read off a request: status, index, the queue's users
  and the queue's statuses.
\<close>

definition exampleCall :: "string \<Rightarrow> Action \<Rightarrow> string \<Rightarrow> call" where
  "exampleCall uid action comments =
     \<lparr> cl_requestId = ''r1'', cl_actorId = uid, cl_action = action,
       cl_payload = \<lparr> pl_comments = comments, pl_signature = inkSignature \<rparr>,
       cl_now = ''2024-01-04T00:00:00.000Z'' \<rparr>"

definition exampleStore :: store where
  "exampleStore = [''r1'' \<mapsto> procurementRequest]"

definition exampleResubmit :: resubmit_params where
  "exampleResubmit =
     \<lparr> rp_request_id = ''r1'', rp_requester_name = ''Stores'', rp_details = Map.empty,
       rp_approval_queue = approvalQueueForDb [] [pendingEntry ''A'', pendingEntry ''C''],
       rp_vendor_id = None, rp_file_url = None, rp_file_name = None,
       rp_requester_signature = Some inkSignature \<rparr>"

definition summary :: "Request \<Rightarrow> ApprovalStatus \<times> int \<times> string list \<times> ApprovalStatus list" where
  "summary r =
     (r_status r, r_currentApproverIndex r, map a_userId (r_approvalQueue r),
      map a_status (r_approvalQueue r))"

lemmas example_defs = adminUser_def approverUser_def pendingEntry_def procurementRequest_def
  sentBackRequest_def rejectedRequest_def twiceCommented_def exampleComment_def

section \<open>What the modal sends\<close>

lemma updateRequestStatus_recorded:
  "snd (updateRequestStatus recordingBackend offline requestId approverId action comments
          signature hodComments auditDetails calls) =
   calls @ [\<lparr> p_request_id = requestId, p_action = action,
               p_comments = str_or_null (Some comments), p_signature = signature,
               p_hod_comments = str_or_null hodComments,
               p_internal_audit_comments = str_or_null (opt_internalAuditComments auditDetails),
               p_final_amount = num_or_null (opt_finalAmount auditDetails) \<rparr>]"
  by (simp add: updateRequestStatus_def recordingBackend_def)

lemma handleAction_calls:
  "snd (handleAction recordingBackend offline currentUser users request form signature status []) =
     (case currentUser of
        None \<Rightarrow> []
      | Some cu \<Rightarrow>
          (case str_or_null signature of
             None \<Rightarrow> []
           | Some sig \<Rightarrow>
               if status = SENT_BACK \<and> trim (f_comments form) = [] then []
               else [\<lparr> p_request_id = r_id request, p_action = status,
                       p_comments = str_or_null (Some (f_comments form)), p_signature = sig,
                       p_hod_comments =
                         str_or_null (if isHOD currentUser request then Some (f_hodComments form) else None),
                       p_internal_audit_comments =
                         str_or_null (opt_internalAuditComments
                           (auditDetailsOf (isAuditor currentUser users request)
                              (f_internalAuditComments form) (f_finalAmount form))),
                       p_final_amount =
                         num_or_null (opt_finalAmount
                           (auditDetailsOf (isAuditor currentUser users request)
                              (f_internalAuditComments form) (f_finalAmount form))) \<rparr>]))"
proof (cases currentUser)
  case None
  then show ?thesis by (simp add: handleAction_def)
next
  case user: (Some cu)
  show ?thesis
  proof (cases "str_or_null signature")
    case None
    with user show ?thesis by (simp add: handleAction_def)
  next
    case sig: (Some sig)
    show ?thesis
    proof (cases "status = SENT_BACK \<and> trim (f_comments form) = []")
      case True
      with user sig show ?thesis by (simp add: handleAction_def)
    next
      case False
      with user sig show ?thesis
        by (simp add: handleAction_def Let_def split_beta updateRequestStatus_recorded
              del: str_or_null.simps)
    qed
  qed
qed

lemma auditDetailsOf_not_auditor: "auditDetailsOf False ic fa = None"
  by (simp add: auditDetailsOf_def)

lemma isHOD_D:
  "isHOD currentUser request \<Longrightarrow>
     r_type request = LEAVE \<and> isCurrentUserApprover currentUser request \<and>
     (\<exists>cu. currentUser = Some cu \<and> r_details request ''selectedHODId'' = Some (JString (u_id cu)))"
  apply (cases currentUser)
   apply (simp add: isHOD_def isCurrentUserApprover_def)
  apply (cases "r_details request ''selectedHODId''")
   apply (simp add: isHOD_def)
  subgoal for cu v by (cases v) (simp_all add: isHOD_def)
  done

lemma isAuditor_D:
  "isAuditor currentUser users request \<Longrightarrow>
     isCurrentUserApprover currentUser request \<and>
     (\<exists>cu. currentUser = Some cu \<and> AUDITOR_ID users = Some (u_id cu))"
  by (auto simp: isAuditor_def split: option.splits)

text \<open>
  Claim C8. The result of \<open>updateRequestStatus\<close> does not depend on its argument
  \<open>approverId\<close>: with all other inputs equal, two actor ids give the same call to the
  backend, the same state of the backend afterwards and the same returned result. The
  id is not part of what is sent; the backend has only the caller's session to tell who
  acts.
\<close>

theorem updateRequestStatus_ignores_approverId:
  "updateRequestStatus handle_request_action offline requestId approverId action comments
     signature hodComments auditDetails db =
   updateRequestStatus handle_request_action offline requestId approverId' action comments
     signature hodComments auditDetails db"
  by (simp add: updateRequestStatus_def)

text \<open>
  What the modal sends of the fields reserved to a role. Whatever call \<open>handleAction\<close>
  makes, it carries head-of-department comments only if the request is a leave request
  and the user is its current approver and its designated head of department, and it
  carries internal audit comments or a final amount only if the user is the current
  approver and the one account with the auditor's address. From any other user the
  modal sends these fields as \<^verbatim>\<open>null\<close>. (\<open>updateRequestStatus\<close> itself passes on
  whatever its caller gives it.)
\<close>

lemma role_fields_only_from_entitled:
  assumes "p \<in> set (snd (handleAction recordingBackend offline currentUser users request form
                            signature status []))"
  shows "(p_hod_comments p \<noteq> None \<longrightarrow>
            r_type request = LEAVE \<and> isCurrentUserApprover currentUser request \<and>
            (\<exists>cu. currentUser = Some cu \<and>
                  r_details request ''selectedHODId'' = Some (JString (u_id cu)))) \<and>
         (p_internal_audit_comments p \<noteq> None \<or> p_final_amount p \<noteq> None \<longrightarrow>
            isCurrentUserApprover currentUser request \<and>
            (\<exists>cu. currentUser = Some cu \<and> AUDITOR_ID users = Some (u_id cu)))"
proof -
  let ?aud = "isAuditor currentUser users request"
  let ?ad = "auditDetailsOf ?aud (f_internalAuditComments form) (f_finalAmount form)"
  from assms have hod: "p_hod_comments p =
      str_or_null (if isHOD currentUser request then Some (f_hodComments form) else None)"
    and ic: "p_internal_audit_comments p = str_or_null (opt_internalAuditComments ?ad)"
    and fa: "p_final_amount p = num_or_null (opt_finalAmount ?ad)"
    by (auto simp: handleAction_calls split: option.splits if_splits)
  have 1: "p_hod_comments p \<noteq> None \<Longrightarrow> isHOD currentUser request"
    using hod by (cases "isHOD currentUser request") simp_all
  have 2: "p_internal_audit_comments p \<noteq> None \<or> p_final_amount p \<noteq> None \<Longrightarrow> ?aud"
    using ic fa
    by (cases ?aud) (simp_all add: auditDetailsOf_not_auditor opt_internalAuditComments_def
          opt_finalAmount_def)
  show ?thesis using 1 2 isHOD_D isAuditor_D by blast
qed

lemma role_fields_witness:
  "\<lparr> p_request_id = ''r2'', p_action = APPROVED, p_comments = None, p_signature = inkSignature,
      p_hod_comments = Some ''cover arranged'', p_internal_audit_comments = Some ''checked'',
      p_final_amount = Some (JNum 1500) \<rparr>
     \<in> set (snd (handleAction recordingBackend False (Some (approverUser ''B'' AUDITOR_EMAIL))
                   [approverUser ''A'' ''a@zankli.com'', approverUser ''B'' AUDITOR_EMAIL] leaveRequest
                   \<lparr> f_comments = [], f_hodComments = ''cover arranged'',
                     f_internalAuditComments = ''checked'', f_finalAmount = ''1500'' \<rparr>
                   (Some inkSignature) APPROVED [])) \<and>
   r_type leaveRequest = LEAVE \<and>
   isCurrentUserApprover (Some (approverUser ''B'' AUDITOR_EMAIL)) leaveRequest \<and>
   r_details leaveRequest ''selectedHODId'' = Some (JString ''B'') \<and>
   AUDITOR_ID [approverUser ''A'' ''a@zankli.com'', approverUser ''B'' AUDITOR_EMAIL] = Some ''B''"
proof -
  let ?p = "\<lparr> p_request_id = ''r2'', p_action = APPROVED, p_comments = None, p_signature = inkSignature,
      p_hod_comments = Some ''cover arranged'', p_internal_audit_comments = Some ''checked'',
      p_final_amount = Some (JNum 1500) \<rparr>"
  have pf: "parseFloat ''1500'' = JNum 1500"
    by (simp add: parseFloat_def parseUnsigned_def isWhiteSpace_def isDigit_def roundToDouble_def
          scale10_def exponentPart_def Let_def)
  have cua: "isCurrentUserApprover (Some (approverUser ''B'' AUDITOR_EMAIL)) leaveRequest"
    by (simp add: isCurrentUserApprover_def leaveRequest_def approverUser_def at_index_def
          pendingEntry_def)
  have hod: "isHOD (Some (approverUser ''B'' AUDITOR_EMAIL)) leaveRequest"
    using cua by (simp add: isHOD_def) (simp add: leaveRequest_def approverUser_def)
  have aid: "AUDITOR_ID [approverUser ''A'' ''a@zankli.com'', approverUser ''B'' AUDITOR_EMAIL] = Some ''B''"
    by (simp add: AUDITOR_ID_def approverUser_def AUDITOR_EMAIL_def)
  have aud: "isAuditor (Some (approverUser ''B'' AUDITOR_EMAIL))
               [approverUser ''A'' ''a@zankli.com'', approverUser ''B'' AUDITOR_EMAIL] leaveRequest"
    using cua aid by (simp add: isAuditor_def) (simp add: approverUser_def)
  have mem: "?p \<in> set (snd (handleAction recordingBackend False (Some (approverUser ''B'' AUDITOR_EMAIL))
                   [approverUser ''A'' ''a@zankli.com'', approverUser ''B'' AUDITOR_EMAIL] leaveRequest
                   \<lparr> f_comments = [], f_hodComments = ''cover arranged'',
                     f_internalAuditComments = ''checked'', f_finalAmount = ''1500'' \<rparr>
                   (Some inkSignature) APPROVED []))"
    by (simp add: handleAction_calls hod aud pf auditDetailsOf_def opt_internalAuditComments_def
          opt_finalAmount_def inkSignature_def)
       (simp add: leaveRequest_def)
  from role_fields_only_from_entitled [OF mem] mem aid show ?thesis
    by (simp add: approverUser_def)
qed

lemma str_or_null_Some: "s \<noteq> [] \<Longrightarrow> str_or_null (Some s) = Some s"
  by simp

lemma handleAction_passes:
  assumes "currentUser = Some cu" and "signature = Some sig" and "sig \<noteq> []"
    and "\<not> (status = SENT_BACK \<and> trim (f_comments form) = [])"
  shows "handleAction rpc offline currentUser users request form signature status db =
     (if success (fst (updateRequestStatus rpc offline (r_id request) (u_id cu) status
                         (f_comments form) sig
                         (if isHOD currentUser request then Some (f_hodComments form) else None)
                         (auditDetailsOf (isAuditor currentUser users request)
                            (f_internalAuditComments form) (f_finalAmount form)) db))
      then Closed
      else ActionError (error (fst (updateRequestStatus rpc offline (r_id request) (u_id cu) status
                         (f_comments form) sig
                         (if isHOD currentUser request then Some (f_hodComments form) else None)
                         (auditDetailsOf (isAuditor currentUser users request)
                            (f_internalAuditComments form) (f_finalAmount form)) db))),
      snd (updateRequestStatus rpc offline (r_id request) (u_id cu) status
                         (f_comments form) sig
                         (if isHOD currentUser request then Some (f_hodComments form) else None)
                         (auditDetailsOf (isAuditor currentUser users request)
                            (f_internalAuditComments form) (f_finalAmount form)) db))"
proof -
  have 1: "(status = SENT_BACK \<and> trim (f_comments form) = []) = False" using assms(4) by simp
  show ?thesis
    unfolding handleAction_def assms(1) assms(2) option.case str_or_null_Some [OF assms(3)] 1
      if_False Let_def split_beta
    by (cases "success (fst (updateRequestStatus rpc offline (r_id request) (u_id cu) status
                         (f_comments form) sig
                         (if isHOD (Some cu) request then Some (f_hodComments form) else None)
                         (auditDetailsOf (isAuditor (Some cu) users request)
                            (f_internalAuditComments form) (f_finalAmount form)) db))")
       (simp_all only: if_True if_False fst_conv snd_conv)
qed


lemma updateRequestStatus_outcome:
  "snd (updateRequestStatus rpc offline requestId approverId action comments signature
          hodComments auditDetails db) =
   snd (rpc \<lparr> p_request_id = requestId, p_action = action,
               p_comments = str_or_null (Some comments), p_signature = signature,
               p_hod_comments = str_or_null hodComments,
               p_internal_audit_comments = str_or_null (opt_internalAuditComments auditDetails),
               p_final_amount = num_or_null (opt_finalAmount auditDetails) \<rparr> db) \<and>
   success (fst (updateRequestStatus rpc offline requestId approverId action comments signature
          hodComments auditDetails db)) =
   (fst (rpc \<lparr> p_request_id = requestId, p_action = action,
               p_comments = str_or_null (Some comments), p_signature = signature,
               p_hod_comments = str_or_null hodComments,
               p_internal_audit_comments = str_or_null (opt_internalAuditComments auditDetails),
               p_final_amount = num_or_null (opt_finalAmount auditDetails) \<rparr> db) = RpcReply None)"
  by (simp add: updateRequestStatus_def del: str_or_null.simps
        split: prod.splits rpc_reply.splits option.splits)

lemma handleAction_submits:
  fixes currentUser :: "User option" and users :: "User list" and request :: Request
    and form :: action_form and status :: ApprovalStatus and sig :: string
  assumes "currentUser = Some cu" and "signature = Some sig" and "sig \<noteq> []"
    and "\<not> (status = SENT_BACK \<and> trim (f_comments form) = [])"
  defines "p \<equiv> \<lparr> p_request_id = r_id request, p_action = status,
               p_comments = str_or_null (Some (f_comments form)), p_signature = sig,
               p_hod_comments = str_or_null
                 (if isHOD currentUser request then Some (f_hodComments form) else None),
               p_internal_audit_comments = str_or_null (opt_internalAuditComments
                 (auditDetailsOf (isAuditor currentUser users request)
                    (f_internalAuditComments form) (f_finalAmount form))),
               p_final_amount = num_or_null (opt_finalAmount
                 (auditDetailsOf (isAuditor currentUser users request)
                    (f_internalAuditComments form) (f_finalAmount form))) \<rparr>"
  shows "snd (handleAction rpc offline currentUser users request form signature status db) = snd (rpc p db)"
    and "(fst (handleAction rpc offline currentUser users request form signature status db) = Closed) =
         (fst (rpc p db) = RpcReply None)"
  unfolding handleAction_passes [OF assms(1-4)] p_def
  using updateRequestStatus_outcome [of rpc offline "r_id request" "u_id cu" status
          "f_comments form" sig
          "if isHOD currentUser request then Some (f_hodComments form) else None"
          "auditDetailsOf (isAuditor currentUser users request)
             (f_internalAuditComments form) (f_finalAmount form)" db]
  by (simp_all only: fst_conv snd_conv if_distrib [of "\<lambda>x. x = Closed"] action_outcome.distinct
        simp_thms if_True if_False split: if_split)


lemma handleAction_rejects:
  assumes "currentUser = Some cu"
  shows "str_or_null signature = None \<Longrightarrow>
           handleAction rpc offline currentUser users request form signature status db =
           (ActionError (Some ''Please provide your signature to complete this action.''), db)"
    and "str_or_null signature \<noteq> None \<Longrightarrow> status = SENT_BACK \<Longrightarrow> trim (f_comments form) = [] \<Longrightarrow>
           handleAction rpc offline currentUser users request form signature status db =
           (ActionError (Some ''Comments are required when sending a request back for correction.''), db)"
  using assms by (auto simp: handleAction_def)

text \<open>
  Claim C5, as the code has it. Validation comes first and is all or nothing: for a
  logged-in user, an action without a signature ends with the signature message, and a
  send-back whose comments are empty or nothing but white space ends with the comments
  message; in both cases the backend is not called and its state is untouched, whatever
  the backend is. A send-back with a signature and comments that hold a character other
  than white space is submitted: one call is made, with the request's id, the action,
  the comments and the signature, and the modal closes exactly when the backend answers
  without an error.
\<close>

theorem handleAction_validates_first:
  assumes "currentUser = Some cu"
  shows "(str_or_null signature = None \<longrightarrow>
            handleAction rpc offline currentUser users request form signature status db =
            (ActionError (Some ''Please provide your signature to complete this action.''), db)) \<and>
         (str_or_null signature \<noteq> None \<and> status = SENT_BACK \<and> trim (f_comments form) = [] \<longrightarrow>
            handleAction rpc offline currentUser users request form signature status db =
            (ActionError (Some ''Comments are required when sending a request back for correction.''), db)) \<and>
         (str_or_null signature \<noteq> None \<and> status = SENT_BACK \<and> trim (f_comments form) \<noteq> [] \<longrightarrow>
            (\<exists>p. snd (handleAction recordingBackend offline currentUser users request form
                         signature status []) = [p] \<and>
                  p_request_id p = r_id request \<and> p_action p = SENT_BACK \<and>
                  p_comments p = Some (f_comments form) \<and> signature = Some (p_signature p) \<and>
                  snd (handleAction rpc offline currentUser users request form signature status db) =
                    snd (rpc p db) \<and>
                  (fst (handleAction rpc offline currentUser users request form signature status db) = Closed) =
                    (fst (rpc p db) = RpcReply None)))"
proof (intro conjI impI)
  assume "str_or_null signature = None"
  with assms show "handleAction rpc offline currentUser users request form signature status db =
            (ActionError (Some ''Please provide your signature to complete this action.''), db)"
    by (simp add: handleAction_rejects(1))
next
  assume "str_or_null signature \<noteq> None \<and> status = SENT_BACK \<and> trim (f_comments form) = []"
  with assms show "handleAction rpc offline currentUser users request form signature status db =
            (ActionError (Some ''Comments are required when sending a request back for correction.''), db)"
    by (simp add: handleAction_rejects(2))
next
  assume a: "str_or_null signature \<noteq> None \<and> status = SENT_BACK \<and> trim (f_comments form) \<noteq> []"
  then obtain sig where sig: "signature = Some sig" "sig \<noteq> []"
    by (cases signature) (auto split: if_splits)
  from a have ne: "f_comments form \<noteq> []" by (auto simp: trim_def)
  from a have nb: "\<not> (status = SENT_BACK \<and> trim (f_comments form) = [])" by simp
  define p where "p = \<lparr> p_request_id = r_id request, p_action = status,
               p_comments = str_or_null (Some (f_comments form)), p_signature = sig,
               p_hod_comments = str_or_null
                 (if isHOD currentUser request then Some (f_hodComments form) else None),
               p_internal_audit_comments = str_or_null (opt_internalAuditComments
                 (auditDetailsOf (isAuditor currentUser users request)
                    (f_internalAuditComments form) (f_finalAmount form))),
               p_final_amount = num_or_null (opt_finalAmount
                 (auditDetailsOf (isAuditor currentUser users request)
                    (f_internalAuditComments form) (f_finalAmount form))) \<rparr>"
  have rec: "snd (handleAction recordingBackend offline currentUser users request form
                         signature status []) = [p]"
    unfolding handleAction_submits(1) [OF assms sig nb] p_def by (simp add: recordingBackend_def)
  have fields: "p_request_id p = r_id request \<and> p_action p = SENT_BACK \<and>
                  p_comments p = Some (f_comments form) \<and> signature = Some (p_signature p)"
    using a ne sig by (simp add: p_def)
  have gen: "snd (handleAction rpc offline currentUser users request form signature status db) =
                    snd (rpc p db) \<and>
                  (fst (handleAction rpc offline currentUser users request form signature status db) = Closed) =
                    (fst (rpc p db) = RpcReply None)"
    unfolding handleAction_submits [OF assms sig nb] p_def by simp
  from rec fields gen
  show "\<exists>p. snd (handleAction recordingBackend offline currentUser users request form
                         signature status []) = [p] \<and>
                  p_request_id p = r_id request \<and> p_action p = SENT_BACK \<and>
                  p_comments p = Some (f_comments form) \<and> signature = Some (p_signature p) \<and>
                  snd (handleAction rpc offline currentUser users request form signature status db) =
                    snd (rpc p db) \<and>
                  (fst (handleAction rpc offline currentUser users request form signature status db) = Closed) =
                    (fst (rpc p db) = RpcReply None)"
    by blast
qed

text \<open>
  The claim as stated fails: comments of a single space are not empty, and the
  send-back is refused with the comments message before any call.
\<close>

theorem whitespace_comments_refused:
  "handleAction recordingBackend False (Some (approverUser ''A'' ''a@zankli.com'')) []
     procurementRequest
     \<lparr> f_comments = '' '', f_hodComments = [], f_internalAuditComments = [], f_finalAmount = [] \<rparr>
     (Some inkSignature) SENT_BACK []
   = (ActionError (Some ''Comments are required when sending a request back for correction.''), [])"
  by (simp add: handleAction_def trim_def isWhiteSpace_def inkSignature_def)

theorem handleAction_validates_first_witness:
  "handleAction recordingBackend False (Some (approverUser ''A'' ''a@zankli.com'')) []
     procurementRequest
     \<lparr> f_comments = ''fix budget'', f_hodComments = [], f_internalAuditComments = [], f_finalAmount = [] \<rparr>
     None SENT_BACK []
   = (ActionError (Some ''Please provide your signature to complete this action.''), []) \<and>
   handleAction recordingBackend False (Some (approverUser ''A'' ''a@zankli.com'')) []
     procurementRequest
     \<lparr> f_comments = [], f_hodComments = [], f_internalAuditComments = [], f_finalAmount = [] \<rparr>
     (Some inkSignature) SENT_BACK []
   = (ActionError (Some ''Comments are required when sending a request back for correction.''), []) \<and>
   handleAction recordingBackend False (Some (approverUser ''A'' ''a@zankli.com'')) []
     procurementRequest
     \<lparr> f_comments = ''fix budget'', f_hodComments = [], f_internalAuditComments = [], f_finalAmount = [] \<rparr>
     (Some inkSignature) SENT_BACK []
   = (Closed, [\<lparr> p_request_id = ''r1'', p_action = SENT_BACK, p_comments = Some ''fix budget'',
                  p_signature = inkSignature, p_hod_comments = None,
                  p_internal_audit_comments = None, p_final_amount = None \<rparr>])"
proof -
  let ?A = "Some (approverUser ''A'' ''a@zankli.com'')"
  let ?fix = "\<lparr> f_comments = ''fix budget'', f_hodComments = [], f_internalAuditComments = [], f_finalAmount = [] \<rparr>"
  let ?empty = "\<lparr> f_comments = [], f_hodComments = [], f_internalAuditComments = [], f_finalAmount = [] \<rparr>"
  have t: "trim ''fix budget'' \<noteq> []" by (simp add: trim_def isWhiteSpace_def)
  have i: "str_or_null (Some inkSignature) \<noteq> None" by (simp add: inkSignature_def)
  have nh: "\<not> isHOD ?A procurementRequest" by (simp add: isHOD_def procurementRequest_def)
  have na: "\<not> isAuditor ?A [] procurementRequest" by (simp add: isAuditor_def AUDITOR_ID_def)
  from handleAction_validates_first [of ?A "approverUser ''A'' ''a@zankli.com''" None
         recordingBackend False "[]" procurementRequest ?fix SENT_BACK "[]"]
  have 1: "handleAction recordingBackend False ?A [] procurementRequest ?fix None SENT_BACK []
           = (ActionError (Some ''Please provide your signature to complete this action.''), [])"
    by simp
  from handleAction_validates_first [of ?A "approverUser ''A'' ''a@zankli.com''" "Some inkSignature"
         recordingBackend False "[]" procurementRequest ?empty SENT_BACK "[]"] i
  have 2: "handleAction recordingBackend False ?A [] procurementRequest ?empty (Some inkSignature) SENT_BACK []
           = (ActionError (Some ''Comments are required when sending a request back for correction.''), [])"
    by (simp add: trim_def)
  from handleAction_validates_first [of ?A "approverUser ''A'' ''a@zankli.com''" "Some inkSignature"
         recordingBackend False "[]" procurementRequest ?fix SENT_BACK "[]"] i t
  obtain p where p: "snd (handleAction recordingBackend False ?A [] procurementRequest ?fix
                         (Some inkSignature) SENT_BACK []) = [p]"
    and c: "(fst (handleAction recordingBackend False ?A [] procurementRequest ?fix
                         (Some inkSignature) SENT_BACK []) = Closed) =
            (fst (recordingBackend p []) = RpcReply None)"
    by auto
  have p': "p = \<lparr> p_request_id = ''r1'', p_action = SENT_BACK, p_comments = Some ''fix budget'',
                  p_signature = inkSignature, p_hod_comments = None,
                  p_internal_audit_comments = None, p_final_amount = None \<rparr>"
    using p by (simp add: handleAction_calls nh na auditDetailsOf_def opt_internalAuditComments_def
                  opt_finalAmount_def inkSignature_def trim_def isWhiteSpace_def)
               (simp add: procurementRequest_def)
  have 3: "handleAction recordingBackend False ?A [] procurementRequest ?fix (Some inkSignature) SENT_BACK []
           = (Closed, [p])"
    using p c by (simp add: recordingBackend_def prod_eq_iff)
  from 1 2 3 p' show ?thesis by simp
qed

text \<open>
  Claim C10, as the code has it. \<open>updateRequestStatus\<close> sends a final amount of 0
  as \<^verbatim>\<open>null\<close>, with the same call, state and result as for no amount at all, and it
  sends empty comments as \<^verbatim>\<open>null\<close>. The \<^verbatim>\<open>auditDetails\<close> of the modal leave the
  amount undefined exactly when the field is empty or does not parse; an amount that
  parses to 0 is passed on as the number 0.
\<close>

theorem falsy_amount_sent_as_null:
  "map p_final_amount
     (snd (updateRequestStatus recordingBackend offline requestId approverId action comments
             signature hodComments
             (Some \<lparr> ad_internalAuditComments = ic, ad_finalAmount = Some (JNum 0) \<rparr>) [])) = [None] \<and>
   updateRequestStatus handle_request_action offline requestId approverId action comments
     signature hodComments (Some \<lparr> ad_internalAuditComments = ic, ad_finalAmount = Some (JNum 0) \<rparr>) db =
   updateRequestStatus handle_request_action offline requestId approverId action comments
     signature hodComments (Some \<lparr> ad_internalAuditComments = ic, ad_finalAmount = None \<rparr>) db \<and>
   map p_comments
     (snd (updateRequestStatus recordingBackend offline requestId approverId action []
             signature hodComments auditDetails [])) = [None] \<and>
   (opt_finalAmount (auditDetailsOf True iac finalAmount) = None) =
     (finalAmount = [] \<or> isNaN (parseFloat finalAmount))"
proof -
  let ?zero = "Some \<lparr> ad_internalAuditComments = ic, ad_finalAmount = Some (JNum 0) \<rparr>"
  let ?none = "Some \<lparr> ad_internalAuditComments = ic, ad_finalAmount = None \<rparr>"
  have sent: "map p_final_amount
     (snd (updateRequestStatus recordingBackend offline requestId approverId action comments
             signature hodComments ?zero [])) = [None]"
    by (simp add: updateRequestStatus_recorded opt_finalAmount_def)
  have same: "updateRequestStatus handle_request_action offline requestId approverId action
       comments signature hodComments ?zero db =
     updateRequestStatus handle_request_action offline requestId approverId action
       comments signature hodComments ?none db"
    by (simp add: updateRequestStatus_def opt_finalAmount_def opt_internalAuditComments_def)
  have empty: "map p_comments
     (snd (updateRequestStatus recordingBackend offline requestId approverId action []
             signature hodComments auditDetails [])) = [None]"
    by (simp add: updateRequestStatus_recorded)
  have client: "(opt_finalAmount (auditDetailsOf True iac finalAmount) = None) =
     (finalAmount = [] \<or> isNaN (parseFloat finalAmount))"
    by (simp add: opt_finalAmount_def auditDetailsOf_def Let_def)
  from sent same empty client show ?thesis by simp
qed

text \<open>
  The claim as stated fails in its last part: the input \<^verbatim>\<open>"0"\<close> is a non-empty
  string that parses, so \<^verbatim>\<open>auditDetails.finalAmount\<close> is the number 0, not
  \<^verbatim>\<open>undefined\<close>.
\<close>

theorem auditDetails_zero_kept:
  "opt_finalAmount (auditDetailsOf True [] ''0'') = Some (JNum 0)"
  by (simp add: opt_finalAmount_def auditDetailsOf_def Let_def parseFloat_def parseUnsigned_def
        isWhiteSpace_def isDigit_def roundToDouble_def scale10_def exponentPart_def)

section \<open>The list of notifications\<close>

lemma mset_insertBy: "mset (insertBy cmp x ys) = add_mset x (mset ys)"
  by (induction ys) auto

lemma mset_sortBy: "mset (sortBy cmp xs) = mset xs"
  by (induction xs) (auto simp: sortBy_def mset_insertBy)

lemma set_insertBy: "set (insertBy cmp x ys) = insert x (set ys)"
  by (induction ys) auto

lemma set_sortBy: "set (sortBy cmp xs) = set xs"
  by (induction xs) (auto simp: sortBy_def set_insertBy)

lemma sortBy_Cons: "sortBy cmp (x # xs) = insertBy cmp x (sortBy cmp xs)"
  by (simp add: sortBy_def)

lemma sorted_insertBy:
  assumes "\<And>y. y \<in> set ys \<Longrightarrow> cmp x y = k y - k x"
    and "sorted_wrt (\<lambda>a b. k b \<le> k a) ys"
  shows "sorted_wrt (\<lambda>a b. k b \<le> (k a :: int)) (insertBy cmp x ys)"
  using assms
proof (induction ys)
  case Nil
  then show ?case by simp
next
  case (Cons y ys)
  show ?case
  proof (cases "cmp x y \<le> 0")
    case True
    with Cons.prems have "k y \<le> k x" by simp
    with Cons.prems True show ?thesis by (auto intro: order_trans)
  next
    case False
    with Cons.prems have "k x < k y" by simp
    with Cons False show ?thesis by (auto simp: set_insertBy)
  qed
qed

lemma sorted_sortBy:
  assumes "\<And>a b. a \<in> set xs \<Longrightarrow> b \<in> set xs \<Longrightarrow> cmp a b = k b - k a"
  shows "sorted_wrt (\<lambda>a b. k b \<le> (k a :: int)) (sortBy cmp xs)"
  using assms
proof (induction xs)
  case Nil
  then show ?case by (simp add: sortBy_def)
next
  case (Cons x xs)
  have "sorted_wrt (\<lambda>a b. k b \<le> k a) (sortBy cmp xs)"
    by (rule Cons.IH) (simp add: Cons.prems)
  moreover have "\<And>y. y \<in> set (sortBy cmp xs) \<Longrightarrow> cmp x y = k y - k x"
    by (simp add: set_sortBy Cons.prems)
  ultimately show ?case
    unfolding sortBy_Cons by (rule sorted_insertBy [rotated])
qed

lemma sortBy_sorted:
  assumes "\<And>a b. a \<in> set xs \<Longrightarrow> b \<in> set xs \<Longrightarrow> cmp a b = k b - k a"
    and "sorted_wrt (\<lambda>a b. k b \<le> (k a :: int)) xs"
  shows "sortBy cmp xs = xs"
  using assms
proof (induction xs)
  case Nil
  then show ?case by (simp add: sortBy_def)
next
  case (Cons x xs)
  have IH: "sortBy cmp xs = xs"
    by (rule Cons.IH) (use Cons.prems in auto)
  show ?case
  proof (cases xs)
    case Nil
    then show ?thesis by (simp add: sortBy_def)
  next
    case (Cons y ys)
    with Cons.prems have "cmp x y \<le> 0" by simp
    with Cons IH show ?thesis by (simp add: sortBy_Cons)
  qed
qed

lemma filter_insertBy:
  assumes "\<And>y. y \<in> set ys \<Longrightarrow> cmp x y = k y - k x"
  shows "filter (\<lambda>n. k n = (t :: int)) (insertBy cmp x ys) =
         filter (\<lambda>n. k n = t) (x # ys)"
  using assms by (induction ys) auto

lemma filter_sortBy:
  assumes "\<And>a b. a \<in> set xs \<Longrightarrow> b \<in> set xs \<Longrightarrow> cmp a b = k b - k a"
  shows "filter (\<lambda>n. k n = (t :: int)) (sortBy cmp xs) = filter (\<lambda>n. k n = t) xs"
  using assms
proof (induction xs)
  case Nil
  then show ?case by (simp add: sortBy_def)
next
  case (Cons x xs)
  have "filter (\<lambda>n. k n = t) (sortBy cmp (x # xs)) = filter (\<lambda>n. k n = t) (x # sortBy cmp xs)"
    unfolding sortBy_Cons by (rule filter_insertBy) (simp add: set_sortBy Cons.prems)
  also have "\<dots> = filter (\<lambda>n. k n = t) (x # xs)"
    using Cons.IH Cons.prems by simp
  finally show ?case .
qed

lemma compareNotifs_valid:
  assumes "getTime (n_createdAt a) \<noteq> None" and "getTime (n_createdAt b) \<noteq> None"
  shows "compareNotifs getTime a b = the (getTime (n_createdAt b)) - the (getTime (n_createdAt a))"
  using assms by (auto simp: compareNotifs_def)

lemma isRead_approverNotifs:
  "n \<in> set (approverNotifs cu readNotifIds req) \<Longrightarrow> n_isRead n = (n_id n \<in> set readNotifIds)"
  by (auto simp: approverNotifs_def Let_def split: if_splits)

lemma isRead_statusNotifs:
  "n \<in> set (statusNotifs readNotifIds req) \<Longrightarrow> n_isRead n = (n_id n \<in> set readNotifIds)"
  by (auto simp: statusNotifs_def split: if_splits)

lemma isRead_commentNotifs:
  "n \<in> set (commentNotifs cu users readNotifIds req) \<Longrightarrow> n_isRead n = (n_id n \<in> set readNotifIds)"
  by (auto simp: commentNotifs_def commentNotif_def split: option.splits)

lemma isRead_generatedNotifs:
  "n \<in> set (generatedNotifs cu users readNotifIds requests) \<Longrightarrow>
     n_isRead n = (n_id n \<in> set readNotifIds)"
  by (auto simp: generatedNotifs_def requestNotifs_def isRead_approverNotifs isRead_statusNotifs
        isRead_commentNotifs split: if_splits)

text \<open>
  Claim C7. The derivation of the notifications is idempotent and order-stable. Its
  output depends on the requests, the viewer, the directory and the seen ids only, not
  on the list that was shown before; running the effect on its own output changes
  nothing; the output is sorted by the time of each item's \<^verbatim>\<open>createdAt\<close>, newest first;
  items of equal time keep the order in which they were generated, and sorting the
  output again leaves it as it is; and every item's \<^verbatim>\<open>isRead\<close> says whether its id is
  among the seen ids. The order is stated for date strings the host can read.
\<close>

theorem notifications_sorted_and_stable:
  assumes "\<forall>n \<in> set (generatedNotifs cu users readNotifIds requests). getTime (n_createdAt n) \<noteq> None"
  shows "notificationsEffect getTime (Some cu) users readNotifIds requests old =
           notificationsEffect getTime (Some cu) users readNotifIds requests old' \<and>
         notificationsEffect getTime currentUser users readNotifIds requests
           (notificationsEffect getTime currentUser users readNotifIds requests old) =
           notificationsEffect getTime currentUser users readNotifIds requests old \<and>
         sorted_wrt (\<lambda>a b. the (getTime (n_createdAt b)) \<le> the (getTime (n_createdAt a)))
           (notificationsEffect getTime (Some cu) users readNotifIds requests old) \<and>
         filter (\<lambda>n. the (getTime (n_createdAt n)) = t)
           (notificationsEffect getTime (Some cu) users readNotifIds requests old) =
           filter (\<lambda>n. the (getTime (n_createdAt n)) = t)
             (generatedNotifs cu users readNotifIds requests) \<and>
         sortBy (compareNotifs getTime)
           (notificationsEffect getTime (Some cu) users readNotifIds requests old) =
           notificationsEffect getTime (Some cu) users readNotifIds requests old \<and>
         (\<forall>n \<in> set (notificationsEffect getTime (Some cu) users readNotifIds requests old).
            n_isRead n = (n_id n \<in> set readNotifIds))"
proof -
  let ?g = "generatedNotifs cu users readNotifIds requests"
  let ?k = "\<lambda>n. the (getTime (n_createdAt n))"
  let ?out = "notificationsEffect getTime (Some cu) users readNotifIds requests old"
  have out: "?out = sortBy (compareNotifs getTime) ?g"
    by (simp add: notificationsEffect_def)
  have cmp: "\<And>a b. a \<in> set ?g \<Longrightarrow> b \<in> set ?g \<Longrightarrow> compareNotifs getTime a b = ?k b - ?k a"
    using assms by (simp add: compareNotifs_valid)
  have indep: "?out = notificationsEffect getTime (Some cu) users readNotifIds requests old'"
    by (simp add: notificationsEffect_def)
  have idem: "notificationsEffect getTime currentUser users readNotifIds requests
           (notificationsEffect getTime currentUser users readNotifIds requests old) =
           notificationsEffect getTime currentUser users readNotifIds requests old"
    by (cases currentUser) (simp_all add: notificationsEffect_def)
  have sorted: "sorted_wrt (\<lambda>a b. ?k b \<le> ?k a) ?out"
    unfolding out using cmp by (rule sorted_sortBy)
  have stable: "filter (\<lambda>n. ?k n = t) ?out = filter (\<lambda>n. ?k n = t) ?g"
    unfolding out using cmp by (rule filter_sortBy)
  have again: "sortBy (compareNotifs getTime) ?out = ?out"
  proof (rule sortBy_sorted [where k = ?k])
    show "\<And>a b. a \<in> set ?out \<Longrightarrow> b \<in> set ?out \<Longrightarrow> compareNotifs getTime a b = ?k b - ?k a"
      using cmp by (simp add: out set_sortBy)
    show "sorted_wrt (\<lambda>a b. ?k b \<le> ?k a) ?out" by (rule sorted)
  qed
  have read: "\<forall>n \<in> set ?out. n_isRead n = (n_id n \<in> set readNotifIds)"
    by (simp add: out set_sortBy isRead_generatedNotifs)
  from indep idem sorted stable again read show ?thesis by blast
qed

lemma example_generated:
  "generatedNotifs adminUser [] [''notif-r3-Rejected''] [sentBackRequest, rejectedRequest] =
     [\<lparr> n_id = ''notif-r1-Sent Back for Correction'',
        n_message = ''Request r1 has been Sent Back for Correction.'', n_requestId = ''r1'',
        n_isRead = False, n_createdAt = ''2024-01-01T00:00:00.000Z'' \<rparr>,
      \<lparr> n_id = ''notif-comment-r1-2024-01-03T00:00:00.000Z'',
        n_message = ''New comment on r1 from a user: '' @ [CHR 0x22] @ ''invoice missing...'' @ [CHR 0x22],
        n_requestId = ''r1'',
        n_isRead = False, n_createdAt = ''2024-01-03T00:00:00.000Z'' \<rparr>,
      \<lparr> n_id = ''notif-r3-Rejected'',
        n_message = ''Request r3 has been Rejected.'', n_requestId = ''r3'',
        n_isRead = True, n_createdAt = ''2024-01-02T00:00:00.000Z'' \<rparr>]"
  by (simp add: generatedNotifs_def requestNotifs_def approverNotifs_def statusNotifs_def
        commentNotifs_def commentNotif_def commentNotifId_def commenterName_def baseNotifId_def
        getUserById_def example_defs)

theorem notifications_sorted_and_stable_witness:
  "map n_id (notificationsEffect hostClock (Some adminUser) [] [''notif-r3-Rejected'']
               [sentBackRequest, rejectedRequest] []) =
     [''notif-comment-r1-2024-01-03T00:00:00.000Z'', ''notif-r3-Rejected'',
      ''notif-r1-Sent Back for Correction''] \<and>
   map n_isRead (notificationsEffect hostClock (Some adminUser) [] [''notif-r3-Rejected'']
               [sentBackRequest, rejectedRequest] []) = [False, True, False] \<and>
   sorted_wrt (\<lambda>a b. the (hostClock (n_createdAt b)) \<le> the (hostClock (n_createdAt a)))
     (notificationsEffect hostClock (Some adminUser) [] [''notif-r3-Rejected'']
               [sentBackRequest, rejectedRequest] [])"
proof -
  have valid: "\<forall>n \<in> set (generatedNotifs adminUser [] [''notif-r3-Rejected'']
                              [sentBackRequest, rejectedRequest]). hostClock (n_createdAt n) \<noteq> None"
    by (simp add: example_generated hostClock_def)
  have out: "map n_id (notificationsEffect hostClock (Some adminUser) [] [''notif-r3-Rejected'']
               [sentBackRequest, rejectedRequest] []) =
     [''notif-comment-r1-2024-01-03T00:00:00.000Z'', ''notif-r3-Rejected'',
      ''notif-r1-Sent Back for Correction''] \<and>
   map n_isRead (notificationsEffect hostClock (Some adminUser) [] [''notif-r3-Rejected'']
               [sentBackRequest, rejectedRequest] []) = [False, True, False]"
    by (simp add: notificationsEffect_def example_generated sortBy_def compareNotifs_def hostClock_def)
  from notifications_sorted_and_stable [OF valid, where old = "[]" and old' = "[]"
         and currentUser = "Some adminUser" and t = 0] out
  show ?thesis by blast
qed

lemma commentNotifId_inj:
  "length rid = length rid' \<Longrightarrow>
     (commentNotifId rid t = commentNotifId rid' t') = (rid = rid' \<and> t = t')"
  by (auto simp: commentNotifId_def)

lemma mset_requestNotifs_generated:
  "req \<in> set requests \<Longrightarrow>
     mset (requestNotifs cu users seen req) \<subseteq># mset (generatedNotifs cu users seen requests)"
proof (induction requests)
  case Nil
  then show ?case by simp
next
  case (Cons r rs)
  then show ?case
    by (auto simp: generatedNotifs_def intro: subset_mset.order_trans)
qed

text \<open>
  Claim C9, as the code has it. For an administrator, each comment of a request that
  someone other than the viewer wrote gives one notification, in the order of the
  comments, and every one of them is in the list shown. Its id is made of the request's
  id and the comment's \<^verbatim>\<open>createdAt\<close>. For request ids of equal length two such ids are
  equal exactly when the request ids and the times are equal: comments that differ in
  request or time get different ids, and two comments of one request written at the
  same time get the same id.
\<close>

theorem comment_notifications:
  assumes "u_role cu = ADMIN" and "req \<in> set requests"
  shows "map n_id (commentNotifs cu users seen req) =
           map (\<lambda>c. commentNotifId (r_id req) (c_createdAt c))
             (filter (\<lambda>c. c_userId c \<noteq> u_id cu)
                (case r_pdfComments req of None \<Rightarrow> [] | Some cs \<Rightarrow> cs)) \<and>
         mset (commentNotifs cu users seen req) \<subseteq>#
           mset (notificationsEffect getTime (Some cu) users seen requests old) \<and>
         (length rid = length rid' \<longrightarrow>
            (commentNotifId rid t = commentNotifId rid' t') = (rid = rid' \<and> t = t'))"
proof -
  have ids: "map n_id (commentNotifs cu users seen req) =
           map (\<lambda>c. commentNotifId (r_id req) (c_createdAt c))
             (filter (\<lambda>c. c_userId c \<noteq> u_id cu)
                (case r_pdfComments req of None \<Rightarrow> [] | Some cs \<Rightarrow> cs))"
    by (simp add: commentNotifs_def commentNotif_def comp_def split: option.splits)
  have "mset (commentNotifs cu users seen req) \<subseteq># mset (requestNotifs cu users seen req)"
    using assms(1) by (simp add: requestNotifs_def)
  also have "\<dots> \<subseteq># mset (generatedNotifs cu users seen requests)"
    using assms(2) by (rule mset_requestNotifs_generated)
  also have "\<dots> = mset (notificationsEffect getTime (Some cu) users seen requests old)"
    by (simp add: notificationsEffect_def mset_sortBy)
  finally have sub: "mset (commentNotifs cu users seen req) \<subseteq>#
           mset (notificationsEffect getTime (Some cu) users seen requests old)" .
  from ids sub commentNotifId_inj show ?thesis by blast
qed

text \<open>
  The claim as stated fails: two different comments of one request with the same
  \<^verbatim>\<open>createdAt\<close> give two notifications with one id.
\<close>

theorem same_time_comments_collide:
  "distinct (the (r_pdfComments twiceCommented)) \<and>
   map n_id (commentNotifs adminUser [] [] twiceCommented) =
     [''notif-comment-r1-2024-01-03T00:00:00.000Z'', ''notif-comment-r1-2024-01-03T00:00:00.000Z'']"
  by (simp add: commentNotifs_def commentNotif_def commentNotifId_def example_defs)

theorem comment_notifications_witness:
  "map n_id (commentNotifs adminUser [] [] sentBackRequest) =
     [''notif-comment-r1-2024-01-03T00:00:00.000Z''] \<and>
   mset (commentNotifs adminUser [] [] sentBackRequest) \<subseteq>#
     mset (notificationsEffect hostClock (Some adminUser) [] [] [sentBackRequest, rejectedRequest] []) \<and>
   commentNotifId ''r1'' ''2024-01-03T00:00:00.000Z'' \<noteq> commentNotifId ''r3'' ''2024-01-03T00:00:00.000Z''"
proof -
  have a: "u_role adminUser = ADMIN" by (simp add: adminUser_def)
  have m: "sentBackRequest \<in> set [sentBackRequest, rejectedRequest]" by simp
  have l: "length ''r1'' = length ''r3''" by simp
  from comment_notifications [OF a m, where users = "[]" and seen = "[]" and getTime = hostClock
         and old = "[]" and rid = "''r1''" and rid' = "''r3''"
         and t = "''2024-01-03T00:00:00.000Z''" and t' = "''2024-01-03T00:00:00.000Z''"] l
  show ?thesis
    by (simp add: example_defs commentNotifId_def)
qed

section \<open>The approval workflow\<close>

lemma transition_accepted:
  assumes "transition request actorId action payload now = Inr request'"
  shows "r_status request = PENDING"
    and "\<exists>entry. at_index (r_approvalQueue request) (r_currentApproverIndex request) = Some entry \<and>
                 actorId = a_userId entry"
    and "pl_signature payload \<noteq> []"
    and "action = SendBack \<Longrightarrow> pl_comments payload \<noteq> []"
  using assms by (auto simp: transition_def Let_def split: if_splits option.splits)

lemma transition_fields:
  assumes "transition request actorId action payload now = Inr request'"
  shows "r_currentApproverIndex request' =
           (if action = Approve then r_currentApproverIndex request + 1
            else r_currentApproverIndex request)"
    and "r_status request' =
           (case action of
              Approve \<Rightarrow> if r_currentApproverIndex request + 1 = int (length (r_approvalQueue request))
                          then APPROVED else PENDING
            | Reject \<Rightarrow> REJECTED
            | SendBack \<Rightarrow> SENT_BACK)"
    and "r_id request' = r_id request"
  using assms by (cases action; auto simp: transition_def Let_def split: if_splits option.splits)+

lemma transition_queue:
  assumes "transition request actorId action payload now = Inr request'"
  shows "\<exists>entry. at_index (r_approvalQueue request) (r_currentApproverIndex request) = Some entry \<and>
           r_approvalQueue request' =
             (r_approvalQueue request)
               [nat (r_currentApproverIndex request) :=
                  entry \<lparr> a_status := entryStatus action, a_comments := Some (pl_comments payload),
                          a_approvedAt := Some now, a_signature := Some (pl_signature payload) \<rparr>]"
  using assms by (cases action) (auto simp: transition_def Let_def split: if_splits option.splits)

lemma transition_total:
  assumes "r_status request = PENDING"
    and "at_index (r_approvalQueue request) (r_currentApproverIndex request) = Some entry"
    and "actorId = a_userId entry" and "pl_signature payload \<noteq> []"
    and "action = SendBack \<Longrightarrow> pl_comments payload \<noteq> []"
  shows "\<exists>request'. transition request actorId action payload now = Inr request'"
  using assms by (auto simp: transition_def Let_def)

lemma transition_token_changes:
  assumes "transition request actorId action payload now = Inr request'"
  shows "\<not> (r_currentApproverIndex request' = r_currentApproverIndex request \<and>
            r_status request' = r_status request)"
  using transition_fields(1,2) [OF assms] transition_accepted(1) [OF assms]
  by (cases action) (auto split: if_splits)

lemma at_index_Some: "at_index xs i = Some x \<Longrightarrow> 0 \<le> i \<and> nat i < length xs \<and> xs ! nat i = x"
  by (auto simp: at_index_def split: if_splits)

lemma transition_keeps_users:
  assumes "transition request actorId action payload now = Inr request'"
  shows "map a_userId (r_approvalQueue request') = map a_userId (r_approvalQueue request)"
proof -
  from transition_queue [OF assms] obtain entry where
    e: "at_index (r_approvalQueue request) (r_currentApproverIndex request) = Some entry" and
    q: "r_approvalQueue request' =
             (r_approvalQueue request)
               [nat (r_currentApproverIndex request) :=
                  entry \<lparr> a_status := entryStatus action, a_comments := Some (pl_comments payload),
                          a_approvedAt := Some now, a_signature := Some (pl_signature payload) \<rparr>]"
    by blast
  from at_index_Some [OF e]
  have i: "nat (r_currentApproverIndex request) < length (r_approvalQueue request)"
    and n: "(r_approvalQueue request) ! nat (r_currentApproverIndex request) = entry"
    by simp_all
  have "(map a_userId (r_approvalQueue request))
          [nat (r_currentApproverIndex request) := a_userId entry] =
        map a_userId (r_approvalQueue request)"
    using i n by (intro nth_equalityI) (auto simp: nth_list_update)
  then show ?thesis
    by (simp add: q map_update)
qed

text \<open>
  Claim C3. Every action the engine accepts was made on a pending request and follows
  the transition table. Approval moves the index on by exactly 1; on the last entry of
  the queue it sets the status to approved and leaves the index equal to the length of
  the queue, on an earlier entry the status stays pending. Rejection and send-back set
  the status to rejected and to sent back and keep the index. The acting entry takes
  the action's status; the queue keeps its length and every other entry.
\<close>

theorem transition_table:
  assumes "transition request actorId action payload now = Inr request'"
  shows "r_status request = PENDING \<and>
         (action = Approve \<longrightarrow>
            r_currentApproverIndex request' = r_currentApproverIndex request + 1 \<and>
            (r_currentApproverIndex request + 1 = int (length (r_approvalQueue request)) \<longrightarrow>
               r_status request' = APPROVED \<and>
               r_currentApproverIndex request' = int (length (r_approvalQueue request'))) \<and>
            (r_currentApproverIndex request + 1 < int (length (r_approvalQueue request)) \<longrightarrow>
               r_status request' = PENDING)) \<and>
         (action = Reject \<longrightarrow>
            r_status request' = REJECTED \<and>
            r_currentApproverIndex request' = r_currentApproverIndex request) \<and>
         (action = SendBack \<longrightarrow>
            r_status request' = SENT_BACK \<and>
            r_currentApproverIndex request' = r_currentApproverIndex request) \<and>
         r_currentApproverIndex request < int (length (r_approvalQueue request)) \<and>
         length (r_approvalQueue request') = length (r_approvalQueue request) \<and>
         a_status (r_approvalQueue request' ! nat (r_currentApproverIndex request)) = entryStatus action \<and>
         (\<forall>i < length (r_approvalQueue request). i \<noteq> nat (r_currentApproverIndex request) \<longrightarrow>
            r_approvalQueue request' ! i = r_approvalQueue request ! i)"
proof -
  from transition_queue [OF assms] obtain entry where
    e: "at_index (r_approvalQueue request) (r_currentApproverIndex request) = Some entry" and
    q: "r_approvalQueue request' =
             (r_approvalQueue request)
               [nat (r_currentApproverIndex request) :=
                  entry \<lparr> a_status := entryStatus action, a_comments := Some (pl_comments payload),
                          a_approvedAt := Some now, a_signature := Some (pl_signature payload) \<rparr>]"
    by blast
  from at_index_Some [OF e] have b: "0 \<le> r_currentApproverIndex request"
    "nat (r_currentApproverIndex request) < length (r_approvalQueue request)" by simp_all
  have len: "length (r_approvalQueue request') = length (r_approvalQueue request)"
    by (simp add: q)
  have st: "a_status (r_approvalQueue request' ! nat (r_currentApproverIndex request)) = entryStatus action"
    using b by (simp add: q)
  have others: "\<forall>i < length (r_approvalQueue request). i \<noteq> nat (r_currentApproverIndex request) \<longrightarrow>
            r_approvalQueue request' ! i = r_approvalQueue request ! i"
    by (simp add: q)
  have lt: "r_currentApproverIndex request < int (length (r_approvalQueue request))"
    using b by linarith
  note r = transition_fields(1,2) [OF assms]
  from transition_accepted(1) [OF assms] r len st others lt show ?thesis
    by (cases action) simp_all
qed

theorem transition_table_witness:
  "map_sum id summary (transition procurementRequest ''A'' Approve
      \<lparr> pl_comments = [], pl_signature = inkSignature \<rparr> ''2024-01-04T00:00:00.000Z'') =
     Inr (PENDING, 1, [''A'', ''B'', ''C''], [APPROVED, PENDING, PENDING]) \<and>
   map_sum id summary (transition (procurementRequest \<lparr> r_currentApproverIndex := 2 \<rparr>) ''C'' Approve
      \<lparr> pl_comments = [], pl_signature = inkSignature \<rparr> ''2024-01-04T00:00:00.000Z'') =
     Inr (APPROVED, 3, [''A'', ''B'', ''C''], [PENDING, PENDING, APPROVED]) \<and>
   map_sum id summary (transition (procurementRequest \<lparr> r_currentApproverIndex := 1 \<rparr>) ''B'' SendBack
      \<lparr> pl_comments = ''fix budget'', pl_signature = inkSignature \<rparr> ''2024-01-04T00:00:00.000Z'') =
     Inr (SENT_BACK, 1, [''A'', ''B'', ''C''], [PENDING, SENT_BACK, PENDING]) \<and>
   map_sum id summary (transition (procurementRequest \<lparr> r_currentApproverIndex := 1 \<rparr>) ''B'' Reject
      \<lparr> pl_comments = [], pl_signature = inkSignature \<rparr> ''2024-01-04T00:00:00.000Z'') =
     Inr (REJECTED, 1, [''A'', ''B'', ''C''], [PENDING, REJECTED, PENDING])"
proof -
  let ?sig = "\<lparr> pl_comments = [], pl_signature = inkSignature \<rparr>"
  let ?fix = "\<lparr> pl_comments = ''fix budget'', pl_signature = inkSignature \<rparr>"
  let ?now = "''2024-01-04T00:00:00.000Z''"
  have q: "r_approvalQueue procurementRequest = [pendingEntry ''A'', pendingEntry ''B'', pendingEntry ''C'']"
    "r_status procurementRequest = PENDING" "r_currentApproverIndex procurementRequest = 0"
    by (simp_all add: procurementRequest_def)
  have i: "inkSignature \<noteq> []" by (simp add: inkSignature_def)
  obtain a where a: "transition procurementRequest ''A'' Approve ?sig ?now = Inr a"
    using transition_total [of procurementRequest "pendingEntry ''A''" "''A''" ?sig Approve ?now] i
    by (auto simp: q at_index_def pendingEntry_def)
  obtain c where c: "transition (procurementRequest \<lparr> r_currentApproverIndex := 2 \<rparr>) ''C'' Approve ?sig ?now = Inr c"
    using transition_total [of "procurementRequest \<lparr> r_currentApproverIndex := 2 \<rparr>"
            "pendingEntry ''C''" "''C''" ?sig Approve ?now] i
    by (auto simp: q at_index_def pendingEntry_def)
  obtain b where b: "transition (procurementRequest \<lparr> r_currentApproverIndex := 1 \<rparr>) ''B'' SendBack ?fix ?now = Inr b"
    using transition_total [of "procurementRequest \<lparr> r_currentApproverIndex := 1 \<rparr>"
            "pendingEntry ''B''" "''B''" ?fix SendBack ?now] i
    by (auto simp: q at_index_def pendingEntry_def)
  obtain r where r: "transition (procurementRequest \<lparr> r_currentApproverIndex := 1 \<rparr>) ''B'' Reject ?sig ?now = Inr r"
    using transition_total [of "procurementRequest \<lparr> r_currentApproverIndex := 1 \<rparr>"
            "pendingEntry ''B''" "''B''" ?sig Reject ?now] i
    by (auto simp: q at_index_def pendingEntry_def)
  have users: "map a_userId (r_approvalQueue x) = [''A'', ''B'', ''C'']"
    if "transition (procurementRequest \<lparr> r_currentApproverIndex := k \<rparr>) u act pl ?now = Inr x"
    for x k u act pl
    using transition_keeps_users [OF that] by (simp add: q pendingEntry_def)
  have sts: "map a_status (r_approvalQueue x) =
             (map a_status (r_approvalQueue procurementRequest)) [nat k := entryStatus act]"
    if "transition (procurementRequest \<lparr> r_currentApproverIndex := k \<rparr>) u act pl ?now = Inr x"
    for x k u act pl
    using transition_queue [OF that] by (auto simp: map_update)
  have a': "transition (procurementRequest \<lparr> r_currentApproverIndex := 0 \<rparr>) ''A'' Approve ?sig ?now = Inr a"
    using a by (simp add: procurementRequest_def)
  from transition_table [OF a] users [OF a'] sts [OF a'] a
  have 1: "map_sum id summary (transition procurementRequest ''A'' Approve ?sig ?now) =
     Inr (PENDING, 1, [''A'', ''B'', ''C''], [APPROVED, PENDING, PENDING])"
    by (simp add: summary_def q pendingEntry_def)
  from transition_table [OF c] users [OF c] sts [OF c] c
  have 2: "map_sum id summary (transition (procurementRequest \<lparr> r_currentApproverIndex := 2 \<rparr>) ''C'' Approve ?sig ?now) =
     Inr (APPROVED, 3, [''A'', ''B'', ''C''], [PENDING, PENDING, APPROVED])"
    by (simp add: summary_def q pendingEntry_def)
  from transition_table [OF b] users [OF b] sts [OF b] b
  have 3: "map_sum id summary (transition (procurementRequest \<lparr> r_currentApproverIndex := 1 \<rparr>) ''B'' SendBack ?fix ?now) =
     Inr (SENT_BACK, 1, [''A'', ''B'', ''C''], [PENDING, SENT_BACK, PENDING])"
    by (simp add: summary_def q pendingEntry_def)
  from transition_table [OF r] users [OF r] sts [OF r] r
  have 4: "map_sum id summary (transition (procurementRequest \<lparr> r_currentApproverIndex := 1 \<rparr>) ''B'' Reject ?sig ?now) =
     Inr (REJECTED, 1, [''A'', ''B'', ''C''], [PENDING, REJECTED, PENDING])"
    by (simp add: summary_def q pendingEntry_def)
  from 1 2 3 4 show ?thesis by simp
qed

lemma conditionalUpdate_same:
  assumes "st requestId = Some current"
  shows "conditionalUpdate st requestId (r_currentApproverIndex current) (r_status current) mutator =
         Inr (st(requestId \<mapsto> mutator current))"
  using assms by (simp add: conditionalUpdate_def)

lemma conditionalUpdate_stale:
  assumes "st requestId = Some current"
    and "\<not> (r_currentApproverIndex current = expectedIndex \<and> r_status current = expectedStatus)"
  shows "conditionalUpdate st requestId expectedIndex expectedStatus mutator = Inl StaleState"
  using assms by (auto simp: conditionalUpdate_def)

lemma writeStep_refused:
  assumes "transition snapshot (cl_actorId c) (cl_action c) (cl_payload c) (cl_now c) = Inl e"
  shows "writeStep st c snapshot = (Finished (Some e), st)"
  using assms by (simp add: writeStep_def)

lemma writeStep_fresh:
  assumes "transition snapshot (cl_actorId c) (cl_action c) (cl_payload c) (cl_now c) = Inr request'"
    and "st (cl_requestId c) = Some snapshot"
  shows "writeStep st c snapshot = (Finished None, st(cl_requestId c \<mapsto> request'))"
  using assms by (simp add: writeStep_def conditionalUpdate_same)

lemma writeStep_stale:
  assumes "transition snapshot (cl_actorId c) (cl_action c) (cl_payload c) (cl_now c) = Inr request'"
    and "st (cl_requestId c) = Some current"
    and "\<not> (r_currentApproverIndex current = r_currentApproverIndex snapshot \<and>
            r_status current = r_status snapshot)"
  shows "writeStep st c snapshot = (Finished (Some StaleState), st)"
  using assms by (simp add: writeStep_def conditionalUpdate_stale)

lemma apply_action_eq:
  assumes "st (cl_requestId c) = Some request"
  shows "apply_action st c =
     (case transition request (cl_actorId c) (cl_action c) (cl_payload c) (cl_now c) of
        Inl e \<Rightarrow> (Some e, st)
      | Inr request' \<Rightarrow> (None, st(cl_requestId c \<mapsto> request')))"
  using assms
  by (simp add: apply_action_def callStep_def loadStep_def writeStep_def conditionalUpdate_same
        split: sum.splits)

lemma exampleStore_r1: "exampleStore ''r1'' = Some procurementRequest"
  by (simp add: exampleStore_def)

lemma procurementRequest_current:
  "r_status procurementRequest = PENDING"
  "at_index (r_approvalQueue procurementRequest) (r_currentApproverIndex procurementRequest) =
     Some (pendingEntry ''A'')"
  by (simp_all add: procurementRequest_def at_index_def)

text \<open>
  Claim C2. On a pending request whose index points at an entry of the queue, exactly
  one identity can act, the user of that entry. A call by anyone else ends with
  \<open>NotAuthorized\<close> and leaves the store as it was; the engine looks at the actor's id
  only, so this holds for administrators as for everyone. A call that succeeds was made
  by the current approver, and a call by the current approver with a signature (and
  with comments, for a send-back) succeeds.
\<close>

theorem only_current_approver_may_act:
  assumes "st (cl_requestId c) = Some request" and "r_status request = PENDING"
    and "at_index (r_approvalQueue request) (r_currentApproverIndex request) = Some entry"
  shows "(cl_actorId c \<noteq> a_userId entry \<longrightarrow> apply_action st c = (Some NotAuthorized, st)) \<and>
         (fst (apply_action st c) = None \<longrightarrow> cl_actorId c = a_userId entry) \<and>
         (cl_actorId c = a_userId entry \<and> pl_signature (cl_payload c) \<noteq> [] \<and>
          (cl_action c = SendBack \<longrightarrow> pl_comments (cl_payload c) \<noteq> []) \<longrightarrow>
            fst (apply_action st c) = None)"
proof -
  note eq = apply_action_eq [of st c request, OF assms(1)]
  show ?thesis
  proof (intro conjI impI)
  assume "cl_actorId c \<noteq> a_userId entry"
  with assms(2,3) have "transition request (cl_actorId c) (cl_action c) (cl_payload c) (cl_now c) =
      Inl NotAuthorized"
    by (simp add: transition_def)
  then show "apply_action st c = (Some NotAuthorized, st)"
    by (simp add: eq)
  next
  assume "fst (apply_action st c) = None"
  then obtain request' where
    "transition request (cl_actorId c) (cl_action c) (cl_payload c) (cl_now c) = Inr request'"
    by (auto simp: eq split: sum.splits)
  from transition_accepted(2) [OF this] assms(3) show "cl_actorId c = a_userId entry" by simp
  next
  assume a: "cl_actorId c = a_userId entry \<and> pl_signature (cl_payload c) \<noteq> [] \<and>
          (cl_action c = SendBack \<longrightarrow> pl_comments (cl_payload c) \<noteq> [])"
  with transition_total [OF assms(2,3), of "cl_actorId c" "cl_payload c" "cl_action c" "cl_now c"]
  obtain request' where
    "transition request (cl_actorId c) (cl_action c) (cl_payload c) (cl_now c) = Inr request'"
    by blast
  then show "fst (apply_action st c) = None"
    by (simp add: eq)
  qed
qed

theorem only_current_approver_may_act_witness:
  "apply_action exampleStore (exampleCall ''Z'' Approve []) = (Some NotAuthorized, exampleStore) \<and>
   apply_action exampleStore (exampleCall ''B'' Approve []) = (Some NotAuthorized, exampleStore) \<and>
   fst (apply_action exampleStore (exampleCall ''A'' Approve [])) = None"
proof -
  have r: "exampleStore (cl_requestId (exampleCall u act cm)) = Some procurementRequest" for u act cm
    by (simp add: exampleCall_def exampleStore_r1)
  note t = only_current_approver_may_act [where st = exampleStore, OF r procurementRequest_current]
  from t [of "''Z''" Approve "[]"] t [of "''B''" Approve "[]"] t [of "''A''" Approve "[]"]
  show ?thesis
    by (simp add: exampleCall_def pendingEntry_def inkSignature_def)
qed

lemma racing_final:
  assumes "st (cl_requestId c1) = Some request" and "cl_requestId c2 = cl_requestId c1"
    and "sched \<in> set racingSchedules"
  shows "runSchedule c1 c2 sched \<lparr> sys_store = st, sys_first = Idle, sys_second = Idle \<rparr> =
     (if sched ! 2
      then (case writeStep st c2 request of
              (ph2, st') \<Rightarrow>
                (case writeStep st' c1 request of
                   (ph1, st'') \<Rightarrow> \<lparr> sys_store = st'', sys_first = ph1, sys_second = ph2 \<rparr>))
      else (case writeStep st c1 request of
              (ph1, st') \<Rightarrow>
                (case writeStep st' c2 request of
                   (ph2, st'') \<Rightarrow> \<lparr> sys_store = st'', sys_first = ph1, sys_second = ph2 \<rparr>)))"
  using assms
  by (auto simp: racingSchedules_def callStep_def loadStep_def split: prod.splits)


lemma two_writes:
  assumes "st rid = Some request" and "cl_requestId ca = rid" and "cl_requestId cb = rid"
    and "writeStep st ca request = (pha, st')" and "writeStep st' cb request = (phb, st'')"
  shows "\<not> (pha = Finished None \<and> phb = Finished None)"
    and "transition request (cl_actorId ca) (cl_action ca) (cl_payload ca) (cl_now ca) = Inr ra \<Longrightarrow>
         transition request (cl_actorId cb) (cl_action cb) (cl_payload cb) (cl_now cb) = Inr rb \<Longrightarrow>
         pha = Finished None \<and> phb = Finished (Some StaleState) \<and> st'' = st(rid \<mapsto> ra)"
proof -
  let ?ta = "transition request (cl_actorId ca) (cl_action ca) (cl_payload ca) (cl_now ca)"
  let ?tb = "transition request (cl_actorId cb) (cl_action cb) (cl_payload cb) (cl_now cb)"
  have stale: "pha = Finished None \<and> phb = Finished (Some StaleState) \<and> st'' = st(rid \<mapsto> ra)"
    if a: "?ta = Inr ra" and b: "?tb = Inr rb" for ra rb
  proof -
    from writeStep_fresh [where st = st, OF a] assms(1,2,4) have 1: "pha = Finished None" "st' = st(rid \<mapsto> ra)"
      by simp_all
    have cur: "st' (cl_requestId cb) = Some ra" using 1 assms(3) by simp
    from writeStep_stale [where st = st', OF b cur transition_token_changes [OF a]] assms(5)
    have "phb = Finished (Some StaleState)" "st'' = st'" by simp_all
    with 1 show ?thesis by simp
  qed
  show "\<not> (pha = Finished None \<and> phb = Finished None)"
  proof (cases ?ta)
    case (Inl e)
    from writeStep_refused [OF Inl, of st] assms(4) show ?thesis by simp
  next
    case a: (Inr ra)
    show ?thesis
    proof (cases ?tb)
      case (Inl e)
      from writeStep_refused [OF Inl, of st'] assms(5) show ?thesis by simp
    next
      case (Inr rb)
      from stale [OF a Inr] show ?thesis by simp
    qed
  qed
  show "?ta = Inr ra \<Longrightarrow> ?tb = Inr rb \<Longrightarrow>
         pha = Finished None \<and> phb = Finished (Some StaleState) \<and> st'' = st(rid \<mapsto> ra)"
    by (rule stale)
qed

text \<open>
  Claim C1. At most one transition is accepted for a request at one position of its
  queue. Two calls on the same request run concurrently, in any of the schedules in
  which both have loaded the request before either writes. Each write is conditional on
  the index and the status the call loaded, so the two never both succeed. If the
  engine accepts both actions on what they loaded, exactly one call succeeds, the first
  to write, and the other ends with \<open>StaleState\<close>; and if both are approvals, the index
  in the store has moved on by exactly 1.
\<close>

theorem one_transition_per_position:
  assumes "st (cl_requestId c1) = Some request" and "cl_requestId c2 = cl_requestId c1"
    and "sched \<in> set racingSchedules"
  shows "(let final = runSchedule c1 c2 sched \<lparr> sys_store = st, sys_first = Idle, sys_second = Idle \<rparr>
          in \<not> (sys_first final = Finished None \<and> sys_second final = Finished None) \<and>
             ((\<exists>r1. transition request (cl_actorId c1) (cl_action c1) (cl_payload c1) (cl_now c1) = Inr r1) \<and>
              (\<exists>r2. transition request (cl_actorId c2) (cl_action c2) (cl_payload c2) (cl_now c2) = Inr r2) \<longrightarrow>
                (sys_first final = Finished None \<and> sys_second final = Finished (Some StaleState) \<or>
                 sys_first final = Finished (Some StaleState) \<and> sys_second final = Finished None) \<and>
                (cl_action c1 = Approve \<and> cl_action c2 = Approve \<longrightarrow>
                   map_option r_currentApproverIndex (sys_store final (cl_requestId c1)) =
                   Some (r_currentApproverIndex request + 1))))"
proof -
  let ?rid = "cl_requestId c1"
  let ?t1 = "transition request (cl_actorId c1) (cl_action c1) (cl_payload c1) (cl_now c1)"
  let ?t2 = "transition request (cl_actorId c2) (cl_action c2) (cl_payload c2) (cl_now c2)"
  define final where
    "final = runSchedule c1 c2 sched \<lparr> sys_store = st, sys_first = Idle, sys_second = Idle \<rparr>"
  have goal: "\<not> (sys_first final = Finished None \<and> sys_second final = Finished None) \<and>
             ((\<exists>r1. ?t1 = Inr r1) \<and> (\<exists>r2. ?t2 = Inr r2) \<longrightarrow>
                (sys_first final = Finished None \<and> sys_second final = Finished (Some StaleState) \<or>
                 sys_first final = Finished (Some StaleState) \<and> sys_second final = Finished None) \<and>
                (cl_action c1 = Approve \<and> cl_action c2 = Approve \<longrightarrow>
                   map_option r_currentApproverIndex (sys_store final ?rid) =
                   Some (r_currentApproverIndex request + 1)))"
  proof (cases "sched ! 2")
    case False
    obtain ph1 st' where w1: "writeStep st c1 request = (ph1, st')" by (cases "writeStep st c1 request")
    obtain ph2 st'' where w2: "writeStep st' c2 request = (ph2, st'')" by (cases "writeStep st' c2 request")
    have fin: "final = \<lparr> sys_store = st'', sys_first = ph1, sys_second = ph2 \<rparr>"
      unfolding final_def racing_final [where st = st, OF assms] using False w1 w2 by simp
    note tw = two_writes [where st = st, OF assms(1) refl assms(2) w1 w2]
    show ?thesis
    proof (intro conjI impI)
      show "\<not> (sys_first final = Finished None \<and> sys_second final = Finished None)"
        using tw(1) by (auto simp: fin)
    next
      assume "(\<exists>r1. ?t1 = Inr r1) \<and> (\<exists>r2. ?t2 = Inr r2)"
      then obtain r1 r2 where "?t1 = Inr r1" "?t2 = Inr r2" by blast
      from tw(2) [OF this]
      show "sys_first final = Finished None \<and> sys_second final = Finished (Some StaleState) \<or>
            sys_first final = Finished (Some StaleState) \<and> sys_second final = Finished None"
        by (simp add: fin)
    next
      assume "(\<exists>r1. ?t1 = Inr r1) \<and> (\<exists>r2. ?t2 = Inr r2)"
        and ap: "cl_action c1 = Approve \<and> cl_action c2 = Approve"
      then obtain r1 r2 where t: "?t1 = Inr r1" "?t2 = Inr r2" by blast
      from tw(2) [OF t] transition_fields(1) [OF t(1)] ap
      show "map_option r_currentApproverIndex (sys_store final ?rid) =
            Some (r_currentApproverIndex request + 1)"
        by (simp add: fin)
    qed
  next
    case True
    obtain ph2 st' where w2: "writeStep st c2 request = (ph2, st')" by (cases "writeStep st c2 request")
    obtain ph1 st'' where w1: "writeStep st' c1 request = (ph1, st'')" by (cases "writeStep st' c1 request")
    have fin: "final = \<lparr> sys_store = st'', sys_first = ph1, sys_second = ph2 \<rparr>"
      unfolding final_def racing_final [where st = st, OF assms] using True w1 w2 by simp
    note tw = two_writes [where st = st, OF assms(1) assms(2) refl w2 w1]
    show ?thesis
    proof (intro conjI impI)
      show "\<not> (sys_first final = Finished None \<and> sys_second final = Finished None)"
        using tw(1) by (auto simp: fin)
    next
      assume "(\<exists>r1. ?t1 = Inr r1) \<and> (\<exists>r2. ?t2 = Inr r2)"
      then obtain r1 r2 where "?t2 = Inr r2" "?t1 = Inr r1" by blast
      from tw(2) [OF this]
      show "sys_first final = Finished None \<and> sys_second final = Finished (Some StaleState) \<or>
            sys_first final = Finished (Some StaleState) \<and> sys_second final = Finished None"
        by (simp add: fin)
    next
      assume "(\<exists>r1. ?t1 = Inr r1) \<and> (\<exists>r2. ?t2 = Inr r2)"
        and ap: "cl_action c1 = Approve \<and> cl_action c2 = Approve"
      then obtain r1 r2 where t: "?t2 = Inr r2" "?t1 = Inr r1" by blast
      from tw(2) [OF t] transition_fields(1) [OF t(1)] ap
      show "map_option r_currentApproverIndex (sys_store final ?rid) =
            Some (r_currentApproverIndex request + 1)"
        by (simp add: fin)
    qed
  qed
  from goal [unfolded final_def] show ?thesis unfolding Let_def .
qed

theorem one_transition_per_position_witness:
  "sys_first (runSchedule (exampleCall ''A'' Approve []) (exampleCall ''A'' Approve [])
                [False, True, False, True]
                \<lparr> sys_store = exampleStore, sys_first = Idle, sys_second = Idle \<rparr>) = Finished None \<and>
   sys_second (runSchedule (exampleCall ''A'' Approve []) (exampleCall ''A'' Approve [])
                [False, True, False, True]
                \<lparr> sys_store = exampleStore, sys_first = Idle, sys_second = Idle \<rparr>) =
     Finished (Some StaleState) \<and>
   map_option r_currentApproverIndex
     (sys_store (runSchedule (exampleCall ''A'' Approve []) (exampleCall ''A'' Approve [])
                [False, True, False, True]
                \<lparr> sys_store = exampleStore, sys_first = Idle, sys_second = Idle \<rparr>) ''r1'') = Some 1"
proof -
  let ?c = "exampleCall ''A'' Approve []"
  let ?final = "runSchedule ?c ?c [False, True, False, True]
                  \<lparr> sys_store = exampleStore, sys_first = Idle, sys_second = Idle \<rparr>"
  have r: "exampleStore (cl_requestId ?c) = Some procurementRequest"
    by (simp add: exampleCall_def exampleStore_r1)
  have s: "[False, True, False, True] \<in> set racingSchedules"
    by (simp add: racingSchedules_def)
  obtain a where a: "transition procurementRequest (cl_actorId ?c) (cl_action ?c) (cl_payload ?c)
                       (cl_now ?c) = Inr a"
    using transition_total [OF procurementRequest_current, of "cl_actorId ?c" "cl_payload ?c"
            "cl_action ?c" "cl_now ?c"]
    by (auto simp: exampleCall_def pendingEntry_def inkSignature_def)
  obtain ph st' where w: "writeStep exampleStore ?c procurementRequest = (ph, st')"
    by (cases "writeStep exampleStore ?c procurementRequest")
  from writeStep_fresh [where st = exampleStore, OF a r] w have first: "ph = Finished None" by simp
  have f: "sys_first ?final = ph"
    unfolding racing_final [where st = exampleStore, OF r refl s] using w
    by (simp split: prod.splits)
  from one_transition_per_position [where st = exampleStore, OF r refl s] a f first
  show ?thesis
    by (simp add: Let_def exampleCall_def procurementRequest_def)
qed

lemma apply_action_keeps_users:
  assumes "fst (apply_action st c) = None"
  shows "map_option (map a_userId \<circ> r_approvalQueue) (snd (apply_action st c) rid) =
         map_option (map a_userId \<circ> r_approvalQueue) (st rid)"
proof (cases "st (cl_requestId c)")
  case None
  with assms show ?thesis
    by (simp add: apply_action_def callStep_def loadStep_def)
next
  case (Some request)
  note eq = apply_action_eq [of st c request, OF Some]
  from assms obtain request' where
    t: "transition request (cl_actorId c) (cl_action c) (cl_payload c) (cl_now c) = Inr request'"
    by (auto simp: eq split: sum.splits)
  from transition_keeps_users [OF t] Some show ?thesis
    by (simp add: eq t)
qed

lemma resubmit_accepted:
  assumes "resubmit st actor params = Inr st'"
  shows "u_role actor = ADMIN"
    and "\<exists>request. st (rp_request_id params) = Some request \<and> r_status request = SENT_BACK \<and>
           st' = st(rp_request_id params \<mapsto>
                  request \<lparr> r_requesterName := rp_requester_name params,
                            r_details := rp_details params,
                            r_status := PENDING,
                            r_approvalQueue := map freshEntry (rp_approval_queue params),
                            r_currentApproverIndex := 0,
                            r_fileName := rp_file_name params,
                            r_fileURL := rp_file_url params,
                            r_requesterSignature := rp_requester_signature params,
                            r_vendorId := rp_vendor_id params \<rparr>)"
  using assms
  by (auto simp: resubmit_def conditionalUpdate_def split: option.splits if_splits)

lemma resubmit_permitted:
  assumes "u_role actor = ADMIN" and "st (rp_request_id params) = Some request"
    and "r_status request = SENT_BACK"
  shows "\<exists>st'. resubmit st actor params = Inr st'"
  using assms by (simp add: resubmit_def conditionalUpdate_def)

lemma resolveAdHocItem_keeps_queue:
  assumes "resolveAdHocItem st actor rid newStatus = Inr st'"
  shows "map_option r_approvalQueue (st' rid') = map_option r_approvalQueue (st rid')"
  using assms
  by (auto simp: resolveAdHocItem_def conditionalUpdate_def split: option.splits if_splits)

text \<open>
  Claim C4. Resubmission is permitted only to an administrator and only on a request
  that was sent back, and then it is permitted. It resets the status to pending and the
  index to 0, and the queue it leaves has the users that were sent, every entry
  pending, whatever the entries were before. No other operation changes who is in a
  queue: an accepted action keeps the users of every queue in the store, and the
  resolution of an item request keeps every queue as it is. On the client side,
  \<open>updateRequest\<close> sends every entry as pending, for the users of the edited queue in
  their order, and the modal offers the edit only to an administrator on a request that
  was sent back.
\<close>

theorem resubmission_resets_queue:
  "(resubmit st actor params = Inr st' \<longrightarrow>
      u_role actor = ADMIN \<and>
      (\<exists>request. st (rp_request_id params) = Some request \<and> r_status request = SENT_BACK) \<and>
      (\<exists>request'. st' (rp_request_id params) = Some request' \<and>
         r_status request' = PENDING \<and> r_currentApproverIndex request' = 0 \<and>
         (\<forall>e \<in> set (r_approvalQueue request'). a_status e = PENDING) \<and>
         map a_userId (r_approvalQueue request') = map q_user_id (rp_approval_queue params))) \<and>
   (u_role actor = ADMIN \<and> st (rp_request_id params) = Some request \<and> r_status request = SENT_BACK \<longrightarrow>
      (\<exists>st'. resubmit st actor params = Inr st')) \<and>
   (fst (apply_action st c) = None \<longrightarrow>
      (\<forall>rid. map_option (map a_userId \<circ> r_approvalQueue) (snd (apply_action st c) rid) =
             map_option (map a_userId \<circ> r_approvalQueue) (st rid))) \<and>
   (resolveAdHocItem st actor rid newStatus = Inr st'' \<longrightarrow>
      (\<forall>rid'. map_option r_approvalQueue (st'' rid') = map_option r_approvalQueue (st rid'))) \<and>
   (\<forall>e \<in> set (approvalQueueForDb users queue). q_status e = PENDING) \<and>
   map q_user_id (approvalQueueForDb users queue) = map a_userId queue \<and>
   (showEditRequest currentUser request onEdit \<longrightarrow>
      (\<exists>cu. currentUser = Some cu \<and> u_role cu = ADMIN) \<and> r_status request = SENT_BACK)"
proof (intro conjI impI allI)
  assume r: "resubmit st actor params = Inr st'"
  from resubmit_accepted(1) [OF r] show "u_role actor = ADMIN" .
  from resubmit_accepted(2) [OF r]
  show "\<exists>request. st (rp_request_id params) = Some request \<and> r_status request = SENT_BACK"
    by blast
  from resubmit_accepted(2) [OF r]
  show "\<exists>request'. st' (rp_request_id params) = Some request' \<and>
         r_status request' = PENDING \<and> r_currentApproverIndex request' = 0 \<and>
         (\<forall>e \<in> set (r_approvalQueue request'). a_status e = PENDING) \<and>
         map a_userId (r_approvalQueue request') = map q_user_id (rp_approval_queue params)"
    by (auto simp: freshEntry_def comp_def)
next
  assume "u_role actor = ADMIN \<and> st (rp_request_id params) = Some request \<and> r_status request = SENT_BACK"
  then show "\<exists>st'. resubmit st actor params = Inr st'"
    using resubmit_permitted by blast
next
  fix rid
  assume "fst (apply_action st c) = None"
  then show "map_option (map a_userId \<circ> r_approvalQueue) (snd (apply_action st c) rid) =
             map_option (map a_userId \<circ> r_approvalQueue) (st rid)"
    by (rule apply_action_keeps_users)
next
  fix rid'
  assume "resolveAdHocItem st actor rid newStatus = Inr st''"
  then show "map_option r_approvalQueue (st'' rid') = map_option r_approvalQueue (st rid')"
    by (rule resolveAdHocItem_keeps_queue)
next
  show "\<forall>e \<in> set (approvalQueueForDb users queue). q_status e = PENDING"
    by (auto simp: approvalQueueForDb_def)
  show "map q_user_id (approvalQueueForDb users queue) = map a_userId queue"
    by (simp add: approvalQueueForDb_def comp_def)
next
  assume "showEditRequest currentUser request onEdit"
  then show "\<exists>cu. currentUser = Some cu \<and> u_role cu = ADMIN" "r_status request = SENT_BACK"
    by (auto simp: showEditRequest_def split: option.splits)
qed

theorem resubmission_resets_queue_witness:
  "map_sum id (\<lambda>st'. map_option summary (st' ''r1''))
     (resubmit [''r1'' \<mapsto> sentBackRequest] adminUser exampleResubmit) =
     Inr (Some (PENDING, 0, [''A'', ''C''], [PENDING, PENDING])) \<and>
   resubmit [''r1'' \<mapsto> sentBackRequest] (approverUser ''A'' ''a@zankli.com'') exampleResubmit =
     Inl NotAuthorized \<and>
   resubmit exampleStore adminUser exampleResubmit = Inl InvalidTransition \<and>
   showEditRequest (Some adminUser) sentBackRequest True"
proof -
  have sb: "[''r1'' \<mapsto> sentBackRequest] (rp_request_id exampleResubmit) = Some sentBackRequest"
    "r_status sentBackRequest = SENT_BACK" "u_role adminUser = ADMIN"
    by (simp_all add: exampleResubmit_def sentBackRequest_def adminUser_def)
  have permitted: "\<exists>st'. resubmit [''r1'' \<mapsto> sentBackRequest] adminUser exampleResubmit = Inr st'"
    using resubmission_resets_queue [where st = "[''r1'' \<mapsto> sentBackRequest]" and actor = adminUser
         and params = exampleResubmit and request = sentBackRequest, THEN conjunct2, THEN conjunct1] sb
    by simp
  have 1: "map_sum id (\<lambda>st'. map_option summary (st' ''r1''))
     (resubmit [''r1'' \<mapsto> sentBackRequest] adminUser exampleResubmit) =
     Inr (Some (PENDING, 0, [''A'', ''C''], [PENDING, PENDING]))"
    by (simp add: resubmit_def conditionalUpdate_def exampleResubmit_def sentBackRequest_def
          adminUser_def summary_def approvalQueueForDb_def freshEntry_def pendingEntry_def)
  have 2: "resubmit [''r1'' \<mapsto> sentBackRequest] (approverUser ''A'' ''a@zankli.com'') exampleResubmit =
     Inl NotAuthorized"
    by (simp add: resubmit_def exampleResubmit_def approverUser_def)
  have 3: "resubmit exampleStore adminUser exampleResubmit = Inl InvalidTransition"
    by (simp add: resubmit_def exampleResubmit_def exampleStore_def adminUser_def procurementRequest_def)
  have 4: "showEditRequest (Some adminUser) sentBackRequest True"
    by (simp add: showEditRequest_def adminUser_def sentBackRequest_def)
  from permitted 1 2 3 4 show ?thesis by simp
qed

text \<open>
  The scenario of the specification, run on the store: \<open>A\<close> approves (index 1,
  pending), \<open>B\<close> sends back with the comment "fix budget", the administrator resubmits
  with the queue \<open>[A, C]\<close> (index 0, both entries pending), \<open>A\<close> approves (index 1),
  \<open>C\<close> approves (index 2, the length of the queue, approved).
\<close>

lemma spec_scenario:
  "(case apply_action exampleStore (exampleCall ''A'' Approve []) of
      (e1, st1) \<Rightarrow>
        (case apply_action st1 (exampleCall ''B'' SendBack ''fix budget'') of
           (e2, st2) \<Rightarrow>
             (case resubmit st2 adminUser exampleResubmit of
                Inl e \<Rightarrow> None
              | Inr st3 \<Rightarrow>
                  (case apply_action st3 (exampleCall ''A'' Approve []) of
                     (e4, st4) \<Rightarrow>
                       (case apply_action st4 (exampleCall ''C'' Approve []) of
                          (e5, st5) \<Rightarrow>
                            Some ([e1, e2, e4, e5],
                                  map (\<lambda>st. map_option summary (st ''r1''))
                                    [st1, st2, st3, st4, st5])))))) =
   Some ([None, None, None, None],
         [Some (PENDING, 1, [''A'', ''B'', ''C''], [APPROVED, PENDING, PENDING]),
          Some (SENT_BACK, 1, [''A'', ''B'', ''C''], [APPROVED, SENT_BACK, PENDING]),
          Some (PENDING, 0, [''A'', ''C''], [PENDING, PENDING]),
          Some (PENDING, 1, [''A'', ''C''], [APPROVED, PENDING]),
          Some (APPROVED, 2, [''A'', ''C''], [APPROVED, APPROVED])])"
  by (simp add: apply_action_def callStep_def loadStep_def writeStep_def transition_def
        conditionalUpdate_def resubmit_def at_index_def summary_def exampleStore_def
        exampleCall_def exampleResubmit_def approvalQueueForDb_def freshEntry_def
        procurementRequest_def pendingEntry_def adminUser_def inkSignature_def)

section \<open>The fields reserved to a role\<close>










end
